theory Spec2Isabelle
  imports Complex_Main
begin

section \<open>Python values and the runtime library\<close>

text \<open>
  The agent moves decoded JSON and tool payloads around as plain Python objects.
  \<open>pyval\<close> is the type of those objects: what \<open>json.loads\<close> returns and what a tool
  hands back as its data. A \<open>dict\<close> keeps its insertion order, so it is an association
  list; a key is looked up with \<open>map_of\<close>.
\<close>

datatype pyfloat = Finite real | PosInf | NegInf | NaN

datatype pyval =
    PNone
  | PBool bool
  | PInt int
  | PFloat pyfloat
  | PStr string
  | PList "pyval list"
  | PDict "(string \<times> pyval) list"

type_synonym pydict = "(string \<times> pyval) list"

text \<open>Truthiness, as \<open>if x:\<close> and \<open>x or y\<close> read a value.\<close>

fun truthy :: "pyval \<Rightarrow> bool" where
  "truthy PNone = False"
| "truthy (PBool b) = b"
| "truthy (PInt i) = (i \<noteq> 0)"
| "truthy (PFloat f) = (f \<noteq> Finite 0)"
| "truthy (PStr s) = (s \<noteq> [])"
| "truthy (PList xs) = (xs \<noteq> [])"
| "truthy (PDict kv) = (kv \<noteq> [])"

text \<open>An \<open>Optional[str]\<close> field is truthy when it is neither \<open>None\<close> nor empty.\<close>

fun truthy_opt :: "string option \<Rightarrow> bool" where
  "truthy_opt None = False"
| "truthy_opt (Some s) = (s \<noteq> [])"

text \<open>
  A call that may raise: \<open>Raises e\<close> carries \<open>str(e)\<close>, the only part of an exception
  the handlers of this program read.
\<close>

datatype 'a outcome = Raises string | Returns 'a

text \<open>
  Faults the interpreter or pydantic raise on a value of the wrong shape. Their message
  texts belong to the interpreter, so they are read through \<open>fault_str\<close> below.
\<close>

datatype pyfault =
    NoAttribute pyval string
  | NoMethod string
  | MissingKey string
  | BadSubscript pyval string
  | NotIterable pyval
  | NotContainer pyval
  | NotMapping pyval
  | InvalidModel string pydict

text \<open>
  The library functions the program calls and does not define: \<open>json.loads\<close> (\<open>Inl\<close> is the
  message of a \<open>JSONDecodeError\<close>), \<open>json.dumps(..., ensure_ascii=False)\<close>, \<open>str\<close> on a
  value that is not a string, and \<open>str(e)\<close> of an interpreter fault. Every definition that
  needs one of them takes the record as its first argument, and every theorem holds for
  all of them.
\<close>

record pyrt =
  json_loads :: "string \<Rightarrow> string + pyval"
  json_dumps :: "pyval \<Rightarrow> string"
  str_of :: "pyval \<Rightarrow> string"
  fault_str :: "pyfault \<Rightarrow> string"

text \<open>\<open>f"{v}"\<close>: a string is inserted as it is, any other value through \<open>str\<close>.\<close>

fun fmt :: "pyrt \<Rightarrow> pyval \<Rightarrow> string" where
  "fmt rt (PStr s) = s"
| "fmt rt v = str_of rt v"

text \<open>\<open>d.get(k, default)\<close> on a dict.\<close>

definition dict_get :: "pydict \<Rightarrow> string \<Rightarrow> pyval \<Rightarrow> pyval" where
  "dict_get d k dflt = (case map_of d k of Some v \<Rightarrow> v | None \<Rightarrow> dflt)"

text \<open>\<open>v.get(k, default)\<close> on any value: only a dict has the method.\<close>

definition attr_get :: "pyval \<Rightarrow> string \<Rightarrow> pyval \<Rightarrow> pyfault + pyval" where
  "attr_get v k dflt =
     (case v of PDict kv \<Rightarrow> Inr (dict_get kv k dflt) | _ \<Rightarrow> Inl (NoAttribute v ''get''))"

text \<open>\<open>v[k]\<close> with a string key.\<close>

definition subscript :: "pyval \<Rightarrow> string \<Rightarrow> pyfault + pyval" where
  "subscript v k =
     (case v of
        PDict kv \<Rightarrow> (case map_of kv k of Some x \<Rightarrow> Inr x | None \<Rightarrow> Inl (MissingKey k))
      | _ \<Rightarrow> Inl (BadSubscript v k))"

text \<open>The elements \<open>iter(v)\<close> yields: a dict yields its keys, a string its characters.\<close>

definition py_iter :: "pyval \<Rightarrow> pyfault + pyval list" where
  "py_iter v =
     (case v of
        PList xs \<Rightarrow> Inr xs
      | PDict kv \<Rightarrow> Inr (map (\<lambda>p. PStr (fst p)) kv)
      | PStr s \<Rightarrow> Inr (map (\<lambda>c. PStr [c]) s)
      | _ \<Rightarrow> Inl (NotIterable v))"

text \<open>Sequencing of steps that may fault: the first fault ends the computation.\<close>

definition and_then :: "'e + 'a \<Rightarrow> ('a \<Rightarrow> 'e + 'b) \<Rightarrow> 'e + 'b" where
  "and_then r f = (case r of Inl e \<Rightarrow> Inl e | Inr x \<Rightarrow> f x)"

fun collect :: "('a \<Rightarrow> 'e + 'b) \<Rightarrow> 'a list \<Rightarrow> 'e + 'b list" where
  "collect f [] = Inr []"
| "collect f (x # xs) =
     (case f x of
        Inl e \<Rightarrow> Inl e
      | Inr y \<Rightarrow> (case collect f xs of Inl e \<Rightarrow> Inl e | Inr ys \<Rightarrow> Inr (y # ys)))"

section \<open>Strings\<close>

text \<open>
  A Python \<open>str\<close> is modelled by the bytes of its UTF-8 encoding, so every text the agent
  can see (the prompts and answers are Vietnamese) is a \<open>string\<close> here. The patterns the
  program searches for are ASCII, and UTF-8 is self-synchronising, so searching the bytes
  finds what searching the code points finds. White space is the one place where code
  points matter: \<open>str.strip\<close>, \<open>str.split\<close> and the regex class \<open>\s\<close> all use the
  interpreter's table of white-space code points, listed here by their encodings.
\<close>

definition nl :: char where
  "nl = CHR 0x0A"

definition fence :: string where
  "fence = [CHR 0x60, CHR 0x60, CHR 0x60]"

definition startswith :: "string \<Rightarrow> string \<Rightarrow> bool" where
  "startswith s p = (take (length p) s = p)"

definition endswith :: "string \<Rightarrow> string \<Rightarrow> bool" where
  "endswith s p = startswith (rev s) (rev p)"

text \<open>\<open>sub in s\<close>.\<close>

fun py_in :: "string \<Rightarrow> string \<Rightarrow> bool" where
  "py_in sub [] = (sub = [])"
| "py_in sub (c # cs) = (startswith (c # cs) sub \<or> py_in sub cs)"

text \<open>The text before and the text after the leftmost occurrence of \<open>sub\<close>.\<close>

fun find_sub :: "string \<Rightarrow> string \<Rightarrow> (string \<times> string) option" where
  "find_sub sub [] = (if sub = [] then Some ([], []) else None)"
| "find_sub sub (c # cs) =
     (if startswith (c # cs) sub then Some ([], drop (length sub) (c # cs))
      else map_option (\<lambda>p. (c # fst p, snd p)) (find_sub sub cs))"

text \<open>
  The white-space code points: U+0009..U+000D, U+001C..U+0020, U+0085, U+00A0, U+1680,
  U+2000..U+200A, U+2028, U+2029, U+202F, U+205F, U+3000.
\<close>

definition whitespace :: "string list" where
  "whitespace =
     [[CHR 0x09], [CHR 0x0A], [CHR 0x0B], [CHR 0x0C], [CHR 0x0D],
      [CHR 0x1C], [CHR 0x1D], [CHR 0x1E], [CHR 0x1F], [CHR 0x20],
      [CHR 0xC2, CHR 0x85], [CHR 0xC2, CHR 0xA0],
      [CHR 0xE1, CHR 0x9A, CHR 0x80],
      [CHR 0xE2, CHR 0x80, CHR 0x80], [CHR 0xE2, CHR 0x80, CHR 0x81],
      [CHR 0xE2, CHR 0x80, CHR 0x82], [CHR 0xE2, CHR 0x80, CHR 0x83],
      [CHR 0xE2, CHR 0x80, CHR 0x84], [CHR 0xE2, CHR 0x80, CHR 0x85],
      [CHR 0xE2, CHR 0x80, CHR 0x86], [CHR 0xE2, CHR 0x80, CHR 0x87],
      [CHR 0xE2, CHR 0x80, CHR 0x88], [CHR 0xE2, CHR 0x80, CHR 0x89],
      [CHR 0xE2, CHR 0x80, CHR 0x8A],
      [CHR 0xE2, CHR 0x80, CHR 0xA8], [CHR 0xE2, CHR 0x80, CHR 0xA9],
      [CHR 0xE2, CHR 0x80, CHR 0xAF],
      [CHR 0xE2, CHR 0x81, CHR 0x9F],
      [CHR 0xE3, CHR 0x80, CHR 0x80]]"

text \<open>The number of bytes of the white-space character \<open>s\<close> starts (ends) with, 0 if none.\<close>

definition space_len :: "string \<Rightarrow> nat" where
  "space_len s = (case find (startswith s) whitespace of Some w \<Rightarrow> length w | None \<Rightarrow> 0)"

definition space_len_end :: "string \<Rightarrow> nat" where
  "space_len_end s = (case find (endswith s) whitespace of Some w \<Rightarrow> length w | None \<Rightarrow> 0)"

lemma space_len_le: "space_len s \<le> length s"
proof (cases "find (startswith s) whitespace")
  case None
  then show ?thesis by (simp add: space_len_def)
next
  case (Some w)
  then have "startswith s w" by (auto simp: find_Some_iff)
  then have "length w \<le> length s"
    by (metis startswith_def length_take min.cobounded2 min.commute)
  with Some show ?thesis by (simp add: space_len_def)
qed

lemma space_len_end_le: "space_len_end s \<le> length s"
proof (cases "find (endswith s) whitespace")
  case None
  then show ?thesis by (simp add: space_len_end_def)
next
  case (Some w)
  then have "startswith (rev s) (rev w)" by (auto simp: find_Some_iff endswith_def)
  then have "length (rev w) \<le> length (rev s)"
    by (metis startswith_def length_take min.cobounded2 min.commute)
  with Some show ?thesis by (simp add: space_len_end_def)
qed

text \<open>\<open>s.lstrip()\<close>, which is also what a greedy \<open>\s*\<close> skips.\<close>

function lstrip :: "string \<Rightarrow> string" where
  "lstrip s = (if space_len s = 0 then s else lstrip (drop (space_len s) s))"
  by pat_completeness auto
termination
proof (relation "measure length")
  show "wf (measure length)" by simp
next
  fix s :: string
  assume "space_len s \<noteq> 0"
  moreover have "space_len s \<le> length s" by (rule space_len_le)
  ultimately show "(drop (space_len s) s, s) \<in> measure length" by simp
qed

function rstrip :: "string \<Rightarrow> string" where
  "rstrip s = (if space_len_end s = 0 then s else rstrip (take (length s - space_len_end s) s))"
  by pat_completeness auto
termination
proof (relation "measure length")
  show "wf (measure length)" by simp
next
  fix s :: string
  assume "space_len_end s \<noteq> 0"
  moreover have "space_len_end s \<le> length s" by (rule space_len_end_le)
  ultimately show "(take (length s - space_len_end s) s, s) \<in> measure length" by simp
qed

declare lstrip.simps [simp del]
declare rstrip.simps [simp del]

text \<open>\<open>s.strip()\<close>.\<close>

definition py_strip :: "string \<Rightarrow> string" where
  "py_strip s = rstrip (lstrip s)"

text \<open>\<open>s.split()\<close>: the maximal runs of characters that are not white space.\<close>

function split_ws :: "string \<Rightarrow> string \<Rightarrow> string list" where
  "split_ws w s =
     (if s = [] then (if w = [] then [] else [w])
      else if space_len s = 0 then split_ws (w @ [hd s]) (tl s)
      else (if w = [] then [] else [w]) @ split_ws [] (drop (space_len s) s))"
  by pat_completeness auto
termination
proof (relation "measure (\<lambda>p. length (snd p))")
  show "wf (measure (\<lambda>p. length (snd p)))" by simp
next
  fix w s :: string
  assume "s \<noteq> []"
  then show "((w @ [hd s], tl s), (w, s)) \<in> measure (\<lambda>p. length (snd p))" by simp
next
  fix w s :: string
  assume "s \<noteq> []" and "space_len s \<noteq> 0"
  then show "(([], drop (space_len s) s), (w, s)) \<in> measure (\<lambda>p. length (snd p))" by simp
qed

declare split_ws.simps [simp del]

definition py_split :: "string \<Rightarrow> string list" where
  "py_split s = split_ws [] s"

text \<open>\<open>sep.join(xs)\<close>.\<close>

fun join_with :: "string \<Rightarrow> string list \<Rightarrow> string" where
  "join_with sep [] = []"
| "join_with sep [x] = x"
| "join_with sep (x # y # zs) = x @ sep @ join_with sep (y # zs)"

lemma length_lstrip_le: "length (lstrip s) \<le> length s"
proof (induction s rule: lstrip.induct)
  case (1 s)
  show ?case
  proof (cases "space_len s = 0")
    case True
    then show ?thesis by (simp add: lstrip.simps)
  next
    case False
    with "1" have "length (lstrip (drop (space_len s) s)) \<le> length (drop (space_len s) s)"
      by simp
    with False show ?thesis by (simp add: lstrip.simps [of s])
  qed
qed

subsection \<open>The regular expressions of the program\<close>

text \<open>
  \<open>re.search(r"```json\n(.*?)\n```", message, re.DOTALL)\<close>, group 1. The engine tries
  the start positions from the left; at a start position the lazy group ends at the first
  closing fence that follows the opening one.
\<close>

fun json_block_search :: "string \<Rightarrow> string option" where
  "json_block_search [] = None"
| "json_block_search (c # cs) =
     (if startswith (c # cs) (fence @ ''json'' @ [nl]) then
        (case find_sub (nl # fence) (drop 8 (c # cs)) of
           Some p \<Rightarrow> Some (fst p)
         | None \<Rightarrow> json_block_search cs)
      else json_block_search cs)"

text \<open>
  \<open>re.search(r"\*\*FINAL ANSWER\*\*:\s*(.*?)(?=\n|$)", content, re.DOTALL)\<close>, group 1.
  After the literal the rest of the pattern always matches: the greedy \<open>\s*\<close> takes the
  whole run of white space, and the lazy group grows until a newline or the end follows.
  So the match starts at the leftmost occurrence of the literal.
\<close>

definition final_answer_search :: "string \<Rightarrow> string option" where
  "final_answer_search content =
     (case find_sub ''**FINAL ANSWER**:'' content of
        None \<Rightarrow> None
      | Some p \<Rightarrow> Some (takeWhile (\<lambda>c. c \<noteq> nl) (lstrip (snd p))))"

text \<open>
  \<open>re.sub(r"^```json\s*|\s*```$", "", s, flags=re.MULTILINE)\<close>. The flag \<open>bol\<close> says
  that the position is the start of a line. No alternative matches the empty string, so
  the scan removes a match and goes on behind it, or keeps one character.
\<close>

function strip_json_fences :: "bool \<Rightarrow> string \<Rightarrow> string" where
  "strip_json_fences bol s =
     (if s = [] then []
      else if bol \<and> startswith s (fence @ ''json'') then
        strip_json_fences
          (endswith (take (length (drop 7 s) - length (lstrip (drop 7 s))) (drop 7 s)) [nl])
          (lstrip (drop 7 s))
      else if startswith (lstrip s) fence
            \<and> (drop 3 (lstrip s) = [] \<or> startswith (drop 3 (lstrip s)) [nl]) then
        strip_json_fences False (drop 3 (lstrip s))
      else hd s # strip_json_fences (hd s = nl) (tl s))"
  by pat_completeness auto
termination
proof (relation "measure (\<lambda>p. length (snd p))")
  show "wf (measure (\<lambda>p. length (snd p)))" by simp
next
  fix bol :: bool and s :: string
  assume "s \<noteq> []"
  moreover have "length (lstrip (drop 7 s)) \<le> length (drop 7 s)" by (rule length_lstrip_le)
  ultimately show "((endswith (take (length (drop 7 s) - length (lstrip (drop 7 s))) (drop 7 s)) [nl],
            lstrip (drop 7 s)), (bol, s)) \<in> measure (\<lambda>p. length (snd p))"
    by (cases s) auto
next
  fix bol :: bool and s :: string
  assume "startswith (lstrip s) fence
            \<and> (drop 3 (lstrip s) = [] \<or> startswith (drop 3 (lstrip s)) [nl])"
  then have "lstrip s \<noteq> []" by (auto simp: startswith_def fence_def)
  then have "length (drop 3 (lstrip s)) < length (lstrip s)" by simp
  moreover have "length (lstrip s) \<le> length s" by (rule length_lstrip_le)
  ultimately show "((False, drop 3 (lstrip s)), (bol, s)) \<in> measure (\<lambda>p. length (snd p))"
    by simp
next
  fix bol :: bool and s :: string
  assume "s \<noteq> []"
  then show "((hd s = nl, tl s), (bol, s)) \<in> measure (\<lambda>p. length (snd p))" by simp
qed

declare strip_json_fences.simps [simp del]

text \<open>
  \<open>re.sub(r"^```.*?\n|\n```$", "", s, flags=re.MULTILINE)\<close>: a fence at the start of a
  line goes with the rest of its line and the newline; a fence that ends a line goes with
  the newline before it.
\<close>

function strip_any_fences :: "bool \<Rightarrow> string \<Rightarrow> string" where
  "strip_any_fences bol s =
     (if s = [] then []
      else if bol \<and> startswith s fence \<and> nl \<in> set (drop 3 s) then
        strip_any_fences True (tl (dropWhile (\<lambda>c. c \<noteq> nl) (drop 3 s)))
      else if startswith s (nl # fence) \<and> (drop 4 s = [] \<or> startswith (drop 4 s) [nl]) then
        strip_any_fences False (drop 4 s)
      else hd s # strip_any_fences (hd s = nl) (tl s))"
  by pat_completeness auto
termination
proof (relation "measure (\<lambda>p. length (snd p))")
  show "wf (measure (\<lambda>p. length (snd p)))" by simp
next
  fix bol :: bool and s :: string
  assume "s \<noteq> []"
  moreover have "length (dropWhile (\<lambda>c. c \<noteq> nl) (drop 3 s)) \<le> length (drop 3 s)"
    by (rule length_dropWhile_le)
  ultimately show "((True, tl (dropWhile (\<lambda>c. c \<noteq> nl) (drop 3 s))), (bol, s))
      \<in> measure (\<lambda>p. length (snd p))"
    by (cases s) auto
next
  fix bol :: bool and s :: string
  assume "s \<noteq> []"
  then show "((False, drop 4 s), (bol, s)) \<in> measure (\<lambda>p. length (snd p))" by simp
next
  fix bol :: bool and s :: string
  assume "s \<noteq> []"
  then show "((hd s = nl, tl s), (bol, s)) \<in> measure (\<lambda>p. length (snd p))" by simp
qed

declare strip_any_fences.simps [simp del]

section \<open>The agent: action parser and result formatter\<close>

text \<open>
  The registry \<open>self.tools\<close> maps a tool's key to the tool object. What the object computes
  belongs to the environment of a run; the registry keeps the object's \<open>name\<close> attribute.
\<close>

type_synonym registry = "string \<Rightarrow> string option"

text \<open>\<open>tool_name[0] if tool_name else None\<close> for a list, the value itself otherwise.\<close>

fun first_if_list :: "pyval \<Rightarrow> pyval" where
  "first_if_list (PList []) = PNone"
| "first_if_list (PList (x # xs)) = x"
| "first_if_list v = v"

text \<open>
  \<open>StockReActAgent.parse_tool_usage\<close>. Both handlers of the method return
  \<open>(None, None)\<close>, as every failed check does.
\<close>

definition parse_tool_usage ::
  "pyrt \<Rightarrow> registry \<Rightarrow> string \<Rightarrow> string option \<times> string option" where
  "parse_tool_usage rt tools message =
     (case json_block_search message of
        None \<Rightarrow> (None, None)
      | Some json_str \<Rightarrow>
          (case json_loads rt json_str of
             Inl e \<Rightarrow> (None, None)
           | Inr (PDict action_data) \<Rightarrow>
               (case (map_of action_data ''action'', map_of action_data ''input'') of
                  (Some a, Some inp) \<Rightarrow>
                    (case first_if_list a of
                       PStr tool_name \<Rightarrow>
                         if tool_name = [] then (None, None)
                         else if tools tool_name = None then (None, None)
                         else (Some tool_name, Some (json_dumps rt inp))
                     | _ \<Rightarrow> (None, None))
                | _ \<Rightarrow> (None, None))
           | Inr _ \<Rightarrow> (None, None)))"

text \<open>The rendering of the search hits: one line per pair of a result and a source.\<close>

definition render_hit :: "pyrt \<Rightarrow> pyval \<times> pyval \<Rightarrow> pyfault + string" where
  "render_hit rt p =
     and_then (subscript (fst p) ''title'') (\<lambda>t.
     and_then (subscript (fst p) ''content'') (\<lambda>c.
     and_then (subscript (snd p) ''url'') (\<lambda>u.
       Inr (''Title: '' @ fmt rt t @ ''. Content: '' @ fmt rt c @ ''. URL: '' @ fmt rt u))))"

definition render_data :: "pyrt \<Rightarrow> string \<Rightarrow> pyval \<Rightarrow> pyfault + string" where
  "render_data rt tool_name data =
     (if tool_name = ''stock_price'' then
        Inr (''Stock price data: '' @ json_dumps rt data)
      else if tool_name = ''rag_knowledge'' then
        and_then (attr_get data ''knowledge_context'' (PStr [])) (\<lambda>documents.
        and_then (attr_get data ''sources'' (PList [])) (\<lambda>sources.
          Inr (''Knowledge context: '' @ fmt rt documents @ '' '' @ [nl] @ ''Sources: ''
               @ fmt rt sources)))
      else if tool_name = ''tavily_search'' then
        and_then (attr_get data ''search_results'' (PList [])) (\<lambda>results.
        and_then (attr_get data ''sources'' (PList [])) (\<lambda>sources.
        and_then (py_iter results) (\<lambda>rs.
        and_then (py_iter sources) (\<lambda>ss.
        and_then (collect (render_hit rt) (zip rs ss)) (\<lambda>hits.
          Inr (''Search results: '' @ join_with [nl] hits))))))
      else if tool_name \<in> set [''fundamental_analysis'', ''industry_analysis'', ''peers_comparison''] then
        Inr (''Analysis data: '' @ json_dumps rt data)
      else if tool_name = ''chat_llm'' then
        and_then (attr_get data ''response'' (PStr [])) (\<lambda>response.
          Inr (''LLM response: '' @ fmt rt response))
      else Inr (fmt rt data))"

text \<open>\<open>StockReActAgent.format_tool_result\<close>, with its handler for a fault of the rendering.\<close>

definition format_tool_result :: "pyrt \<Rightarrow> string \<Rightarrow> pydict \<Rightarrow> string" where
  "format_tool_result rt tool_name tool_result =
     (if dict_get tool_result ''status'' (PStr ''error'') = PStr ''error'' then
        ''Tool '' @ tool_name @ '' failed: ''
          @ fmt rt (dict_get tool_result ''error'' (PStr ''Unknown error''))
      else
        (case render_data rt tool_name (dict_get tool_result ''data'' (PDict [])) of
           Inl e \<Rightarrow> ''Error formatting '' @ tool_name @ '' result: '' @ fault_str rt e
         | Inr rendered \<Rightarrow> rendered))"

text \<open>
  \<open>StockReActAgent.reason\<close>: the chat collaborator's text, or an error-tagged text when
  the call fails.
\<close>

definition reason :: "string outcome \<Rightarrow> string" where
  "reason chat = (case chat of Raises e \<Rightarrow> ''Error: '' @ e | Returns response \<Rightarrow> response)"

section \<open>Tools and the dispatcher\<close>

text \<open>\<open>ToolResult\<close> of \<open>domain/entities/context.py\<close>.\<close>

record tool_result =
  status :: string
  data :: pyval
  metadata :: pydict

text \<open>
  \<open>ToolState(...).model_dump()\<close>. The handler of \<open>_arun\<close> also passes \<open>error=str(e)\<close>, a
  field \<open>ToolState\<close> does not declare: pydantic drops it, so both branches dump the same
  three fields.
\<close>

definition tool_state_dump :: "string \<Rightarrow> pyfloat \<Rightarrow> pydict" where
  "tool_state_dump name execution_time =
     [(''tool_name'', PStr name),
      (''execution_time'', PFloat execution_time),
      (''context'', PDict [(''market'', PStr ''VN'')])]"

text \<open>
  \<open>CustomBaseTool._arun\<close> of the tool called \<open>name\<close>, given what its \<open>_execute_impl\<close> did
  and the time it took.
\<close>

definition arun :: "string \<Rightarrow> pyfloat \<Rightarrow> pyval outcome \<Rightarrow> tool_result" where
  "arun name execution_time impl =
     (case impl of
        Returns result_data \<Rightarrow>
          \<lparr>status = ''success'', data = result_data,
           metadata = tool_state_dump name execution_time\<rparr>
      | Raises e \<Rightarrow>
          \<lparr>status = ''error'', data = PDict [],
           metadata = tool_state_dump name execution_time\<rparr>)"

definition model_dump :: "tool_result \<Rightarrow> pydict" where
  "model_dump r = [(''status'', PStr (status r)), (''data'', data r), (''metadata'', PDict (metadata r))]"

text \<open>
  \<open>ToolResult(**d)\<close>: \<open>status\<close> is required and a string, \<open>data\<close> defaults to \<open>None\<close>,
  \<open>metadata\<close> is a dict and defaults to the empty one; other keys are ignored.
\<close>

definition to_tool_result :: "pydict \<Rightarrow> pyfault + tool_result" where
  "to_tool_result d =
     (case (map_of d ''status'', dict_get d ''metadata'' (PDict [])) of
        (Some (PStr st), PDict md) \<Rightarrow>
          Inr \<lparr>status = st, data = dict_get d ''data'' PNone, metadata = md\<rparr>
      | _ \<Rightarrow> Inl (InvalidModel ''ToolResult'' d))"

text \<open>The keys of \<open>TOOL_INPUT_MODELS\<close>.\<close>

definition TOOL_INPUT_MODELS :: "string list" where
  "TOOL_INPUT_MODELS =
     [''chat_llm'', ''fundamental_analysis'', ''industry_analysis'', ''peers_comparison'',
      ''rag_knowledge'', ''stock_price'', ''tavily_search'']"

text \<open>
  The handlers of the dispatcher tell three classes of exception apart, in this order
  (\<open>JSONDecodeError\<close> and pydantic's \<open>ValidationError\<close> are both \<open>ValueError\<close>s).
\<close>

datatype exc_kind = JSONDecodeError | ValueError | OtherError

text \<open>
  What a workflow is built from: the registry, and the input models.
  \<open>bind_input name d\<close> is \<open>TOOL_INPUT_MODELS[name](**d).dict()\<close> for a dict \<open>d\<close>: the
  validated fields, or the exception the model raises.
\<close>

record wiring =
  tools :: registry
  bind_input :: "string \<Rightarrow> pydict \<Rightarrow> (exc_kind \<times> string) + pydict"

definition error_record :: "string \<Rightarrow> string \<Rightarrow> string \<Rightarrow> pydict" where
  "error_record e tool_name tool_input =
     [(''error'', PStr e), (''status'', PStr ''error''), (''tool_name'', PStr tool_name),
      (''input'', PStr tool_input)]"

definition handled :: "exc_kind \<times> string \<Rightarrow> string" where
  "handled x =
     (case fst x of
        JSONDecodeError \<Rightarrow> ''Invalid JSON input: '' @ snd x
      | ValueError \<Rightarrow> ''Input validation failed: '' @ snd x
      | OtherError \<Rightarrow> snd x)"

text \<open>
  \<open>ReActWorkflow._execute_tool_safely\<close>. \<open>impl\<close> is what \<open>_execute_impl\<close> of the tool
  registered under a key does with the bound fields, \<open>execution_time\<close> the time \<open>_arun\<close>
  measures. The name is a string by the parameter's type, so the guard on its type at the
  top of the method never fires.
\<close>

definition execute_tool_safely ::
  "pyrt \<Rightarrow> wiring \<Rightarrow> (string \<Rightarrow> pydict \<Rightarrow> pyval outcome) \<Rightarrow> pyfloat \<Rightarrow> string \<Rightarrow> string \<Rightarrow> pydict" where
  "execute_tool_safely rt w impl execution_time tool_name tool_input =
     (case tools w tool_name of
        None \<Rightarrow>
          error_record (handled (OtherError, fault_str rt (MissingKey tool_name))) tool_name tool_input
      | Some name \<Rightarrow>
          if tool_name \<notin> set TOOL_INPUT_MODELS then
            error_record (handled (ValueError, ''No input model defined for tool: '' @ tool_name))
              tool_name tool_input
          else
            (case json_loads rt tool_input of
               Inl e \<Rightarrow> error_record (handled (JSONDecodeError, e)) tool_name tool_input
             | Inr (PDict input_data) \<Rightarrow>
                 (case bind_input w tool_name input_data of
                    Inl x \<Rightarrow> error_record (handled x) tool_name tool_input
                  | Inr kwargs \<Rightarrow>
                      model_dump (arun name execution_time (impl tool_name kwargs)))
             | Inr v \<Rightarrow>
                 error_record (handled (OtherError, fault_str rt (NotMapping v)))
                   tool_name tool_input))"

section \<open>The workflow state\<close>

datatype message = HumanMessage string | AIMessage string

fun content :: "message \<Rightarrow> string" where
  "content (HumanMessage c) = c"
| "content (AIMessage c) = c"

text \<open>
  \<open>AgentState\<close> of \<open>domain/entities/context.py\<close>. An entry of \<open>intermediate_results\<close> is a
  dict. \<open>plan\<close> is declared \<open>str\<close>, but the reflection node assigns the decoded
  \<open>updated_plan\<close> to it unchecked, so the field holds a value; the declared type is
  enforced where \<open>run\<close> builds an \<open>AgentState\<close> from the graph's result.
\<close>

record agent_state =
  messages :: "message list"
  tools_used :: "string list"
  intermediate_results :: "pydict list"
  plan :: pyval
  sub_goals :: "string list"
  reflection_notes :: "string list"
  tool_output :: "tool_result option"
  tool_error :: "pydict option"
  action_history :: "pydict list"
  final_answer :: "string option"
  reflection_decision :: "string option"
  current_step :: int
  max_steps :: int

section \<open>The nodes of the workflow\<close>

text \<open>
  The node returned by \<open>ReActWorkflow._reasoning_node\<close>. Its argument is what
  \<open>agent_runnable.ainvoke(state)\<close> did: it raised, or it returned the response text.
\<close>

definition reasoning_node :: "string outcome \<Rightarrow> agent_state \<Rightarrow> agent_state" where
  "reasoning_node llm s =
     (case llm of
        Raises e \<Rightarrow>
          s\<lparr>messages := messages s @ [AIMessage (''Error in reasoning: '' @ e)],
            current_step := current_step s + 1,
            final_answer := Some (''Error: '' @ e),
            reflection_decision := Some ''end''\<rparr>
      | Returns llm_response_content \<Rightarrow>
          (let updated_state =
                 s\<lparr>plan := (if truthy (plan s) then plan s
                             else PStr ''Generate plan to answer user query using available tools.''),
                   sub_goals := (if sub_goals s \<noteq> [] then sub_goals s
                                 else [''Identify relevant tools'', ''Execute tools'',
                                       ''Synthesize results'']),
                   messages := messages s @ [AIMessage llm_response_content]\<rparr>
           in if py_in ''FINAL ANSWER'' llm_response_content then
                (case final_answer_search llm_response_content of
                   Some g \<Rightarrow>
                     updated_state\<lparr>final_answer := Some (py_strip g),
                                    reflection_decision := Some ''end''\<rparr>
                 | None \<Rightarrow> updated_state)
              else updated_state))"

text \<open>The two ways the action node ends without a tool result.\<close>

definition no_valid_action :: "agent_state \<Rightarrow> agent_state" where
  "no_valid_action s =
     s\<lparr>messages := messages s @ [AIMessage ''No valid tool action found''],
       current_step := current_step s + 1,
       reflection_decision :=
         Some (if truthy_opt (final_answer s) then ''end'' else ''continue'')\<rparr>"

definition action_failed :: "string \<Rightarrow> agent_state \<Rightarrow> agent_state" where
  "action_failed e s =
     s\<lparr>messages := messages s @ [AIMessage (''Error in action: '' @ e)],
       current_step := current_step s + 1,
       final_answer := Some (''Error: '' @ e),
       reflection_decision := Some ''end''\<rparr>"

text \<open>\<open>state.messages[-1].content if state.messages else ""\<close>.\<close>

definition latest_response :: "agent_state \<Rightarrow> string" where
  "latest_response s = (if messages s \<noteq> [] then content (last (messages s)) else [])"

text \<open>
  \<open>ReActWorkflow._action_node\<close>. The parser, the dispatcher and the formatter handle
  their own faults, so the only step of the body that can raise is the construction of
  \<open>ToolResult\<close> in the last assignment. The observation is then already appended to the
  message list, which the copy made by the handler shares.
\<close>

definition action_node ::
  "pyrt \<Rightarrow> wiring \<Rightarrow> (string \<Rightarrow> pydict \<Rightarrow> pyval outcome) \<Rightarrow> pyfloat \<Rightarrow> agent_state \<Rightarrow> agent_state" where
  "action_node rt w impl execution_time s =
     (if truthy_opt (final_answer s) then s\<lparr>reflection_decision := Some ''end''\<rparr>
      else
        (let llm_response = latest_response s
         in case parse_tool_usage rt (tools w) llm_response of
              (Some tool_name, Some tool_input) \<Rightarrow>
                if tool_name \<noteq> [] \<and> tool_input \<noteq> [] then
                  (let tool_result = execute_tool_safely rt w impl execution_time tool_name tool_input;
                       formatted_result = format_tool_result rt tool_name tool_result;
                       observed = messages s @ [AIMessage (''Observation: '' @ formatted_result)]
                   in case to_tool_result tool_result of
                        Inr output \<Rightarrow>
                          s\<lparr>messages := observed,
                            current_step := current_step s + 1,
                            tools_used := tools_used s @ [tool_name],
                            intermediate_results := intermediate_results s @
                              [[(''llm_output'', PStr llm_response),
                                (''observation'', PStr formatted_result),
                                (''tool_name'', PStr tool_name),
                                (''success'', PBool (map_of tool_result ''status'' = Some (PStr ''success'')))]],
                            tool_output := Some output\<rparr>
                      | Inl f \<Rightarrow> action_failed (fault_str rt f) (s\<lparr>messages := observed\<rparr>))
                else no_valid_action s
            | _ \<Rightarrow> no_valid_action s))"

text \<open>\<open>key in v\<close> for a string key, and \<open>all(key in v for key in keys)\<close>.\<close>

definition key_in :: "string \<Rightarrow> pyval \<Rightarrow> pyfault + bool" where
  "key_in k v =
     (case v of
        PDict kv \<Rightarrow> Inr (map_of kv k \<noteq> None)
      | PList xs \<Rightarrow> Inr (PStr k \<in> set xs)
      | PStr t \<Rightarrow> Inr (py_in k t)
      | _ \<Rightarrow> Inl (NotContainer v))"

fun all_keys_in :: "string list \<Rightarrow> pyval \<Rightarrow> pyfault + bool" where
  "all_keys_in [] v = Inr True"
| "all_keys_in (k # ks) v =
     (case key_in k v of
        Inl f \<Rightarrow> Inl f
      | Inr present \<Rightarrow> if present then all_keys_in ks v else Inr False)"

text \<open>
  The reflector's verdict as the node reads it after the inner \<open>try\<close>: the three entries
  of the dict \<open>evaluation\<close>.
\<close>

datatype evaluation = Evaluation (decision: string) (reason_of: pyval) (updated_plan: pyval)

definition parse_failed :: "string \<Rightarrow> evaluation" where
  "parse_failed e = Evaluation ''end'' (PStr (''Failed to parse LLM evaluation: '' @ e)) (PStr [])"

text \<open>
  The inner \<open>try\<close> of the reflection node. A \<open>JSONDecodeError\<close> or a \<open>ValueError\<close> is
  handled there and gives the fall-back verdict; a fault of another class (\<open>Inl\<close>) leaves
  the block for the handler of the node.
\<close>

definition checked_evaluation :: "pyrt \<Rightarrow> string \<Rightarrow> pyfault + evaluation" where
  "checked_evaluation rt llm_response_content =
     (case json_loads rt llm_response_content of
        Inl e \<Rightarrow> Inr (parse_failed e)
      | Inr ev \<Rightarrow>
          and_then (all_keys_in [''decision'', ''reason'', ''updated_plan''] ev) (\<lambda>present.
            if \<not> present then Inr (parse_failed ''Invalid LLM evaluation response format'')
            else
              and_then (subscript ev ''decision'') (\<lambda>d.
                if d \<notin> set [PStr ''continue'', PStr ''retry'', PStr ''end''] then
                  Inr (parse_failed (''Invalid decision: '' @ fmt rt d))
                else
                  and_then (subscript ev ''reason'') (\<lambda>r.
                  and_then (subscript ev ''updated_plan'') (\<lambda>p.
                    Inr (Evaluation (fmt rt d) r p))))))"

text \<open>The response as it reaches \<open>json.loads\<close>: stripped, fences removed, white space squeezed.\<close>

definition clean_evaluation :: "string \<Rightarrow> string" where
  "clean_evaluation response = join_with '' '' (py_split (strip_json_fences True (py_strip response)))"

definition apply_evaluation :: "pyrt \<Rightarrow> evaluation \<Rightarrow> agent_state \<Rightarrow> agent_state" where
  "apply_evaluation rt ev s =
     (let noted = s\<lparr>reflection_notes := reflection_notes s @ [''LLM Evaluation: '' @ fmt rt (reason_of ev)],
                    reflection_decision := Some (decision ev)\<rparr>
      in if decision ev = ''retry'' then
           noted\<lparr>plan := (if truthy (updated_plan ev) then updated_plan ev
                          else PStr (''Retry with alternative approach: '' @ fmt rt (plan s))),
                 sub_goals := sub_goals s @
                   [''Resolve issue based on LLM evaluation: '' @ fmt rt (reason_of ev)]\<rparr>
         else if decision ev = ''continue'' then
           noted\<lparr>plan := (if truthy (updated_plan ev) then updated_plan ev else plan s),
                 sub_goals := sub_goals s @ [''Continue collecting data based on LLM evaluation'']\<rparr>
         else noted)"

definition reflection_failed :: "string \<Rightarrow> agent_state \<Rightarrow> agent_state" where
  "reflection_failed e s =
     s\<lparr>messages := messages s @ [AIMessage (''Error in reflection: '' @ e)],
       current_step := current_step s + 1,
       final_answer := Some (''Error: '' @ e),
       reflection_decision := Some ''end'',
       reflection_notes := reflection_notes s @ [''Error during reflection: '' @ e]\<rparr>"

text \<open>
  \<open>ReActWorkflow._reflection_node\<close>. Its argument is what the call of the chat
  collaborator did: \<open>Raises\<close> when the call raised or did not yield a string, else the
  response text. Building the prompt reads the state and cannot fail.
\<close>

definition reflection_node :: "pyrt \<Rightarrow> string outcome \<Rightarrow> agent_state \<Rightarrow> agent_state" where
  "reflection_node rt llm s =
     (if truthy_opt (final_answer s) then
        s\<lparr>reflection_decision := Some ''end'',
          reflection_notes := reflection_notes s @ [''Skipped reflection due to existing final answer'']\<rparr>
      else
        (case llm of
           Raises e \<Rightarrow> reflection_failed e s
         | Returns response \<Rightarrow>
             (case checked_evaluation rt (clean_evaluation response) of
                Inl f \<Rightarrow> reflection_failed (fault_str rt f) s
              | Inr ev \<Rightarrow> apply_evaluation rt ev s)))"

text \<open>\<open>ReActWorkflow._should_continue\<close>, the conditional edge behind the reflection node.\<close>

definition should_continue :: "agent_state \<Rightarrow> string" where
  "should_continue s =
     (if truthy_opt (final_answer s) \<or> current_step s \<ge> max_steps s then ''end''
      else if reflection_decision s = Some ''retry'' then ''continue''
      else if reflection_decision s = Some ''end'' then ''end''
      else ''continue'')"

section \<open>The final answer and the run\<close>

text \<open>
  The fixed Vietnamese answers of the source, as the bytes of their UTF-8 encoding. Without
  the diacritics they read:
  \<^item> \<open>system_error_prefix\<close>: \<^verbatim>\<open>Xin loi, da xay ra loi he thong khi xu ly cau hoi cua ban: \<close>
  \<^item> \<open>no_query_answer\<close>: \<^verbatim>\<open>Toi khong the xu ly cau hoi cua ban vi khong co cau hoi goc. Vui long thu lai.\<close>
  \<^item> \<open>empty_response_answer\<close>: \<^verbatim>\<open>Toi khong the cung cap cau tra loi chi tiet luc nay. Vui long thu lai hoac cung cap them thong tin.\<close>
  \<^item> \<open>synthesis_failed_answer\<close>: \<^verbatim>\<open>Toi xin loi, da xay ra loi khi xu ly cau hoi cua ban. Vui long thu lai sau.\<close>
\<close>

definition system_error_prefix :: string where
  "system_error_prefix =
     ''Xin l'' @ [CHR 0xE1, CHR 0xBB, CHR 0x97] @ ''i, ''
     @ [CHR 0xC4, CHR 0x91, CHR 0xC3, CHR 0xA3] @ '' x'' @ [CHR 0xE1, CHR 0xBA, CHR 0xA3]
     @ ''y ra l'' @ [CHR 0xE1, CHR 0xBB, CHR 0x97] @ ''i h''
     @ [CHR 0xE1, CHR 0xBB, CHR 0x87] @ '' th'' @ [CHR 0xE1, CHR 0xBB, CHR 0x91]
     @ ''ng khi x'' @ [CHR 0xE1, CHR 0xBB, CHR 0xAD] @ '' l'' @ [CHR 0xC3, CHR 0xBD]
     @ '' c'' @ [CHR 0xC3, CHR 0xA2] @ ''u h'' @ [CHR 0xE1, CHR 0xBB, CHR 0x8F] @ ''i c''
     @ [CHR 0xE1, CHR 0xBB, CHR 0xA7] @ ''a b'' @ [CHR 0xE1, CHR 0xBA, CHR 0xA1]
     @ ''n: ''"

definition no_query_answer :: string where
  "no_query_answer =
     ''T'' @ [CHR 0xC3, CHR 0xB4] @ ''i kh'' @ [CHR 0xC3, CHR 0xB4] @ ''ng th''
     @ [CHR 0xE1, CHR 0xBB, CHR 0x83] @ '' x'' @ [CHR 0xE1, CHR 0xBB, CHR 0xAD] @ '' l''
     @ [CHR 0xC3, CHR 0xBD] @ '' c'' @ [CHR 0xC3, CHR 0xA2] @ ''u h''
     @ [CHR 0xE1, CHR 0xBB, CHR 0x8F] @ ''i c'' @ [CHR 0xE1, CHR 0xBB, CHR 0xA7]
     @ ''a b'' @ [CHR 0xE1, CHR 0xBA, CHR 0xA1] @ ''n v'' @ [CHR 0xC3, CHR 0xAC]
     @ '' kh'' @ [CHR 0xC3, CHR 0xB4] @ ''ng c'' @ [CHR 0xC3, CHR 0xB3] @ '' c''
     @ [CHR 0xC3, CHR 0xA2] @ ''u h'' @ [CHR 0xE1, CHR 0xBB, CHR 0x8F] @ ''i g''
     @ [CHR 0xE1, CHR 0xBB, CHR 0x91] @ ''c. Vui l'' @ [CHR 0xC3, CHR 0xB2] @ ''ng th''
     @ [CHR 0xE1, CHR 0xBB, CHR 0xAD] @ '' l'' @ [CHR 0xE1, CHR 0xBA, CHR 0xA1] @ ''i.''"

definition empty_response_answer :: string where
  "empty_response_answer =
     ''T'' @ [CHR 0xC3, CHR 0xB4] @ ''i kh'' @ [CHR 0xC3, CHR 0xB4] @ ''ng th''
     @ [CHR 0xE1, CHR 0xBB, CHR 0x83] @ '' cung c'' @ [CHR 0xE1, CHR 0xBA, CHR 0xA5]
     @ ''p c'' @ [CHR 0xC3, CHR 0xA2] @ ''u tr'' @ [CHR 0xE1, CHR 0xBA, CHR 0xA3]
     @ '' l'' @ [CHR 0xE1, CHR 0xBB, CHR 0x9D] @ ''i chi ti''
     @ [CHR 0xE1, CHR 0xBA, CHR 0xBF] @ ''t l'' @ [CHR 0xC3, CHR 0xBA] @ ''c n''
     @ [CHR 0xC3, CHR 0xA0] @ ''y. Vui l'' @ [CHR 0xC3, CHR 0xB2] @ ''ng th''
     @ [CHR 0xE1, CHR 0xBB, CHR 0xAD] @ '' l'' @ [CHR 0xE1, CHR 0xBA, CHR 0xA1]
     @ ''i ho'' @ [CHR 0xE1, CHR 0xBA, CHR 0xB7] @ ''c cung c''
     @ [CHR 0xE1, CHR 0xBA, CHR 0xA5] @ ''p th'' @ [CHR 0xC3, CHR 0xAA] @ ''m th''
     @ [CHR 0xC3, CHR 0xB4] @ ''ng tin.''"

definition synthesis_failed_answer :: string where
  "synthesis_failed_answer =
     ''T'' @ [CHR 0xC3, CHR 0xB4] @ ''i xin l'' @ [CHR 0xE1, CHR 0xBB, CHR 0x97]
     @ ''i, '' @ [CHR 0xC4, CHR 0x91, CHR 0xC3, CHR 0xA3] @ '' x''
     @ [CHR 0xE1, CHR 0xBA, CHR 0xA3] @ ''y ra l'' @ [CHR 0xE1, CHR 0xBB, CHR 0x97]
     @ ''i khi x'' @ [CHR 0xE1, CHR 0xBB, CHR 0xAD] @ '' l'' @ [CHR 0xC3, CHR 0xBD]
     @ '' c'' @ [CHR 0xC3, CHR 0xA2] @ ''u h'' @ [CHR 0xE1, CHR 0xBB, CHR 0x8F] @ ''i c''
     @ [CHR 0xE1, CHR 0xBB, CHR 0xA7] @ ''a b'' @ [CHR 0xE1, CHR 0xBA, CHR 0xA1]
     @ ''n. Vui l'' @ [CHR 0xC3, CHR 0xB2] @ ''ng th'' @ [CHR 0xE1, CHR 0xBB, CHR 0xAD]
     @ '' l'' @ [CHR 0xE1, CHR 0xBA, CHR 0xA1] @ ''i sau.''"

text \<open>
  \<open>ReActWorkflow._generate_final_answer\<close>. Its argument is what the chat call did. The
  method catches every fault and answers with a fixed text.
\<close>

definition generate_final_answer :: "string outcome \<Rightarrow> agent_state \<Rightarrow> string" where
  "generate_final_answer llm s =
     (let query = (if messages s \<noteq> [] then content (hd (messages s)) else [])
      in if query = [] then no_query_answer
         else
           (case llm of
              Raises e \<Rightarrow> synthesis_failed_answer
            | Returns response \<Rightarrow>
                (let final = strip_any_fences True (py_strip response)
                 in if final = [] then empty_response_answer else final)))"

text \<open>
  \<open>ReActWorkflow._final_output_node\<close>. No step of its body can raise (the synthesis
  handles its own faults), so its handler is never entered.
\<close>

definition final_output_node :: "string outcome \<Rightarrow> agent_state \<Rightarrow> agent_state" where
  "final_output_node llm s =
     (if truthy_opt (final_answer s) then
        s\<lparr>messages := messages s @ [AIMessage (case final_answer s of Some a \<Rightarrow> a | None \<Rightarrow> [])]\<rparr>
      else
        (let final = generate_final_answer llm s
         in s\<lparr>messages := messages s @ [AIMessage final], final_answer := Some final\<rparr>))"

section \<open>The graph and \<open>run\<close>\<close>

text \<open>
  What the collaborators of a run do, cycle by cycle: the reasoner's call, the tool
  implementations and the time they take, the reflector's call, and the call that
  synthesizes the final answer. A run is sequential, so every behaviour of the
  collaborators during one run is such a family of outcomes.
\<close>

record collaborators =
  reasoner :: "nat \<Rightarrow> string outcome"
  tool_impl :: "nat \<Rightarrow> string \<Rightarrow> pydict \<Rightarrow> pyval outcome"
  tool_time :: "nat \<Rightarrow> pyfloat"
  reflector :: "nat \<Rightarrow> string outcome"
  synthesizer :: "string outcome"

text \<open>One pass over the edges \<open>reasoning \<rightarrow> action \<rightarrow> reflection\<close> of \<open>_build_workflow\<close>.\<close>

definition cycle :: "pyrt \<Rightarrow> wiring \<Rightarrow> collaborators \<Rightarrow> nat \<Rightarrow> agent_state \<Rightarrow> agent_state" where
  "cycle rt w env k s =
     reflection_node rt (reflector env k)
       (action_node rt w (tool_impl env k) (tool_time env k)
          (reasoning_node (reasoner env k) s))"

text \<open>
  The compiled graph: cycles while the conditional edge says \<open>continue\<close>, then
  \<open>final_output\<close>. The result is the final state and the number of cycles, counted from
  \<open>k\<close>. The graph is run by the langgraph runtime, which is not part of the repository;
  a fault that the runtime raises on its own account reaches \<open>run\<close> as an exception of
  \<open>ainvoke\<close> (\<open>run_from\<close> below).
\<close>

function workflow_loop ::
  "pyrt \<Rightarrow> wiring \<Rightarrow> collaborators \<Rightarrow> nat \<Rightarrow> agent_state \<Rightarrow> agent_state \<times> nat" where
  "workflow_loop rt w env k s =
     (if should_continue (cycle rt w env k s) = ''continue'' then
        workflow_loop rt w env (Suc k) (cycle rt w env k s)
      else (final_output_node (synthesizer env) (cycle rt w env k s), Suc k))"
  by pat_completeness auto

text \<open>
  The loop terminates: a cycle that does not set a final answer passes through the
  action node's counting branches, and the conditional edge stops at \<open>max_steps\<close>.
\<close>

lemma max_steps_reasoning [simp]: "max_steps (reasoning_node llm s) = max_steps s"
  by (simp add: reasoning_node_def Let_def split: outcome.splits option.splits)

lemma max_steps_action [simp]: "max_steps (action_node rt w impl t s) = max_steps s"
  by (simp add: action_node_def no_valid_action_def action_failed_def Let_def
           split: option.splits sum.splits prod.splits)

lemma max_steps_apply_evaluation [simp]: "max_steps (apply_evaluation rt ev s) = max_steps s"
  by (simp add: apply_evaluation_def Let_def)

lemma max_steps_reflection [simp]: "max_steps (reflection_node rt llm s) = max_steps s"
  by (simp add: reflection_node_def reflection_failed_def split: outcome.splits sum.splits)

lemma max_steps_cycle [simp]: "max_steps (cycle rt w env k s) = max_steps s"
  by (simp add: cycle_def)

lemma step_reasoning: "current_step s \<le> current_step (reasoning_node llm s)"
  by (simp add: reasoning_node_def Let_def split: outcome.splits option.splits)

lemma action_progress:
  "\<not> truthy_opt (final_answer (action_node rt w impl t s)) \<Longrightarrow>
     current_step (action_node rt w impl t s) = current_step s + 1"
  by (simp add: action_node_def no_valid_action_def action_failed_def Let_def
           split: option.splits sum.splits prod.splits if_splits)

lemma current_step_apply_evaluation [simp]:
  "current_step (apply_evaluation rt ev s) = current_step s"
  by (simp add: apply_evaluation_def Let_def)

lemma final_answer_apply_evaluation [simp]:
  "final_answer (apply_evaluation rt ev s) = final_answer s"
  by (simp add: apply_evaluation_def Let_def)

lemma reflection_progress:
  "\<not> truthy_opt (final_answer (reflection_node rt llm s)) \<Longrightarrow>
     current_step (reflection_node rt llm s) = current_step s \<and> \<not> truthy_opt (final_answer s)"
  by (simp add: reflection_node_def reflection_failed_def
           split: outcome.splits sum.splits if_splits)

lemma cycle_progress:
  assumes "\<not> truthy_opt (final_answer (cycle rt w env k s))"
  shows "current_step s + 1 \<le> current_step (cycle rt w env k s)"
proof -
  let ?r = "reasoning_node (reasoner env k) s"
  let ?a = "action_node rt w (tool_impl env k) (tool_time env k) ?r"
  from assms have "\<not> truthy_opt (final_answer (reflection_node rt (reflector env k) ?a))"
    by (simp add: cycle_def)
  then have r: "current_step (reflection_node rt (reflector env k) ?a) = current_step ?a"
    and a: "\<not> truthy_opt (final_answer ?a)"
    using reflection_progress by blast+
  from a have "current_step ?a = current_step ?r + 1" by (rule action_progress)
  moreover have "current_step s \<le> current_step ?r" by (rule step_reasoning)
  ultimately show ?thesis using r by (simp add: cycle_def)
qed

lemma should_continue_continue:
  "should_continue s = ''continue'' \<Longrightarrow>
     \<not> truthy_opt (final_answer s) \<and> current_step s < max_steps s"
  by (simp add: should_continue_def split: if_splits)

termination workflow_loop
proof (relation "measure (\<lambda>(rt, w, env, k, s). nat (max_steps s - current_step s))")
  show "wf (measure (\<lambda>(rt, w, env, k, s). nat (max_steps s - current_step s)))" by simp
next
  fix rt w env k s
  assume c: "should_continue (cycle rt w env k s) = ''continue''"
  then have "\<not> truthy_opt (final_answer (cycle rt w env k s))"
    and lt: "current_step (cycle rt w env k s) < max_steps (cycle rt w env k s)"
    using should_continue_continue by blast+
  then have "current_step s + 1 \<le> current_step (cycle rt w env k s)"
    using cycle_progress by blast
  with lt show "((rt, w, env, Suc k, cycle rt w env k s), (rt, w, env, k, s))
      \<in> measure (\<lambda>(rt, w, env, k, s). nat (max_steps s - current_step s))"
    by simp
qed

declare workflow_loop.simps [simp del]

text \<open>The state \<open>run\<close> starts the graph in.\<close>

definition initial_state :: "string \<Rightarrow> agent_state" where
  "initial_state query =
     \<lparr>messages = [HumanMessage query], tools_used = [], intermediate_results = [],
      plan = PStr [], sub_goals = [], reflection_notes = [], tool_output = None,
      tool_error = None, action_history = [], final_answer = None,
      reflection_decision = Some ''continue'', current_step = 0, max_steps = 10\<rparr>"

text \<open>
  \<open>AgentState(**result)\<close>: the only field a node can leave with a value outside its
  declared type is \<open>plan\<close>.
\<close>

definition to_agent_state :: "agent_state \<Rightarrow> pyfault + agent_state" where
  "to_agent_state s =
     (case plan s of
        PStr p \<Rightarrow> Inr s
      | v \<Rightarrow> Inl (InvalidModel ''AgentState'' [(''plan'', v)]))"

definition session_value :: "string option \<Rightarrow> pyval" where
  "session_value session_id = (case session_id of None \<Rightarrow> PNone | Some i \<Rightarrow> PStr i)"

definition final_result :: "string option \<Rightarrow> pyfloat \<Rightarrow> string \<Rightarrow> agent_state \<Rightarrow> pydict" where
  "final_result session_id workflow_time answer s =
     [(''answer'', PStr answer),
      (''metadata'', PDict
         [(''success'', PBool True),
          (''steps'', PInt (current_step s)),
          (''tools_used'', PList (map PStr (tools_used s))),
          (''intermediate_results'', PList (map PDict (intermediate_results s))),
          (''session_id'', session_value session_id),
          (''execution_time'', PFloat workflow_time),
          (''plan'', plan s),
          (''sub_goals'', PList (map PStr (sub_goals s))),
          (''reflection_notes'', PList (map PStr (reflection_notes s)))])]"

definition error_result :: "string option \<Rightarrow> pyfloat \<Rightarrow> string \<Rightarrow> pydict" where
  "error_result session_id workflow_time e =
     [(''answer'', PStr (system_error_prefix @ e)),
      (''metadata'', PDict
         [(''success'', PBool False),
          (''steps'', PInt 0),
          (''tools_used'', PList []),
          (''intermediate_results'', PList []),
          (''error'', PStr e),
          (''session_id'', session_value session_id),
          (''execution_time'', PFloat workflow_time),
          (''plan'', PStr []),
          (''sub_goals'', PList []),
          (''reflection_notes'', PList [])])]"

text \<open>
  The part of \<open>ReActWorkflow.run\<close> behind \<open>self.workflow.ainvoke\<close>, given what that call
  did. The method \<open>_generate_fallback_answer\<close> that the \<open>or\<close> falls back on is not
  defined in the class, so reaching it is an \<open>AttributeError\<close> for the outer handler.
\<close>

definition run_from ::
  "pyrt \<Rightarrow> string option \<Rightarrow> pyfloat \<Rightarrow> agent_state outcome \<Rightarrow> pydict" where
  "run_from rt session_id workflow_time invoked =
     (case invoked of
        Raises e \<Rightarrow> error_result session_id workflow_time e
      | Returns result \<Rightarrow>
          (case to_agent_state result of
             Inl f \<Rightarrow> error_result session_id workflow_time (fault_str rt f)
           | Inr final_state \<Rightarrow>
               (case final_answer final_state of
                  Some a \<Rightarrow>
                    if a \<noteq> [] then final_result session_id workflow_time a final_state
                    else error_result session_id workflow_time
                           (fault_str rt (NoMethod ''_generate_fallback_answer''))
                | None \<Rightarrow>
                    error_result session_id workflow_time
                      (fault_str rt (NoMethod ''_generate_fallback_answer'')))))"

text \<open>
  \<open>ReActWorkflow.run\<close>: the graph is invoked on the initial state, and every node the
  edges lead to is executed. The langgraph runtime that executes the graph is not part of
  the repository. A run that the runtime cuts short on its own account (its bound on the
  number of node executions), or that it starts from the checkpoint of an earlier run of
  the same session, is an outcome of \<open>ainvoke\<close> that \<open>run_from\<close> covers and that \<open>run\<close>
  does not produce.
\<close>

definition run ::
  "pyrt \<Rightarrow> wiring \<Rightarrow> collaborators \<Rightarrow> string \<Rightarrow> string option \<Rightarrow> pyfloat \<Rightarrow> pydict" where
  "run rt w env query session_id workflow_time =
     run_from rt session_id workflow_time
       (Returns (fst (workflow_loop rt w env 0 (initial_state query))))"

section \<open>Predicates of the statements\<close>


text \<open>
  The states a run can be in: the initial state, and every state a node returns on a
  reachable state, whatever the collaborators do. The states the graph passes through are
  among them (\<open>reachable_workflow_loop\<close> below).
\<close>

inductive reachable :: "pyrt \<Rightarrow> wiring \<Rightarrow> agent_state \<Rightarrow> bool" for rt w where
  start: "reachable rt w (initial_state query)"
| reasoning: "reachable rt w s \<Longrightarrow> reachable rt w (reasoning_node llm s)"
| action: "reachable rt w s \<Longrightarrow> reachable rt w (action_node rt w impl t s)"
| reflection: "reachable rt w s \<Longrightarrow> reachable rt w (reflection_node rt llm s)"
| final_output: "reachable rt w s \<Longrightarrow> reachable rt w (final_output_node llm s)"

text \<open>The two sequences name the same tools in the same order.\<close>

definition aligned :: "agent_state \<Rightarrow> bool" where
  "aligned s \<longleftrightarrow>
     map (\<lambda>r. map_of r ''tool_name'') (intermediate_results s) =
     map (\<lambda>name. Some (PStr name)) (tools_used s)"


section \<open>A concrete runtime for the examples\<close>

text \<open>
  The examples below evaluate the definitions on concrete texts. They need the library
  functions at those texts only, so \<open>sample_loads\<close> is \<open>json.loads\<close> on the listed JSON
  documents and on texts that are no JSON at all, and \<open>sample_dumps\<close> is \<open>json.dumps\<close>
  on the listed values.
\<close>

definition price_action_json :: string where
  "price_action_json = ''{\"action\": \"stock_price\", \"input\": {\"symbols\": \"FPT\"}}''"

definition noted_action_json :: string where
  "noted_action_json =
     ''{\"action\": \"stock_price\", \"input\": {\"symbols\": \"FPT\"}, \"note\": \"urgent\"}''"

definition symbols_json :: string where
  "symbols_json = ''{\"symbols\": \"FPT\"}''"

definition end_verdict_json :: string where
  "end_verdict_json = ''{\"decision\": \"end\", \"reason\": \"enough\", \"updated_plan\": \"\"}''"

definition continue_verdict_json :: string where
  "continue_verdict_json =
     ''{\"decision\": \"continue\", \"reason\": \"more\", \"updated_plan\": \"\"}''"

definition bogus_verdict_json :: string where
  "bogus_verdict_json = ''{\"decision\": \"bogus\", \"reason\": \"\", \"updated_plan\": \"\"}''"

definition sample_loads :: "string \<Rightarrow> string + pyval" where
  "sample_loads doc =
     (if doc = price_action_json then
        Inr (PDict [(''action'', PStr ''stock_price''),
                    (''input'', PDict [(''symbols'', PStr ''FPT'')])])
      else if doc = noted_action_json then
        Inr (PDict [(''action'', PStr ''stock_price''),
                    (''input'', PDict [(''symbols'', PStr ''FPT'')]),
                    (''note'', PStr ''urgent'')])
      else if doc = symbols_json then Inr (PDict [(''symbols'', PStr ''FPT'')])
      else if doc = ''{}'' then Inr (PDict [])
      else if doc = end_verdict_json then
        Inr (PDict [(''decision'', PStr ''end''), (''reason'', PStr ''enough''),
                    (''updated_plan'', PStr [])])
      else if doc = continue_verdict_json then
        Inr (PDict [(''decision'', PStr ''continue''), (''reason'', PStr ''more''),
                    (''updated_plan'', PStr [])])
      else if doc = bogus_verdict_json then
        Inr (PDict [(''decision'', PStr ''bogus''), (''reason'', PStr []),
                    (''updated_plan'', PStr [])])
      else Inl ''Expecting value: line 1 column 1 (char 0)'')"

definition sample_dumps :: "pyval \<Rightarrow> string" where
  "sample_dumps v =
     (if v = PDict [(''symbols'', PStr ''FPT'')] then symbols_json
      else if v = PDict [(''FPT'', PInt 115000)] then ''{\"FPT\": 115000}''
      else ''null'')"

definition sample_str :: "pyval \<Rightarrow> string" where
  "sample_str v =
     (case v of
        PNone \<Rightarrow> ''None''
      | PBool b \<Rightarrow> (if b then ''True'' else ''False'')
      | PStr s \<Rightarrow> s
      | _ \<Rightarrow> ''[]'')"

text \<open>
  A wording for the interpreter's faults, after CPython's messages. Two parts of those
  messages depend on the installation and are left out: the qualified name of the callee
  that the interpreter prints before \<open>argument after ** must be a mapping\<close>, and the detail
  lines that pydantic prints after the first line of a validation error. No statement
  below depends on the wording of a fault other than \<open>MissingKey\<close>, whose text is the
  \<open>repr\<close> of the key.
\<close>

definition type_name :: "pyval \<Rightarrow> string" where
  "type_name v =
     (case v of
        PNone \<Rightarrow> ''NoneType'' | PBool b \<Rightarrow> ''bool'' | PInt i \<Rightarrow> ''int''
      | PFloat f \<Rightarrow> ''float'' | PStr s \<Rightarrow> ''str'' | PList xs \<Rightarrow> ''list''
      | PDict kv \<Rightarrow> ''dict'')"

definition quoted :: "string \<Rightarrow> string" where
  "quoted s = [CHR 0x27] @ s @ [CHR 0x27]"

definition sample_fault_str :: "pyfault \<Rightarrow> string" where
  "sample_fault_str f =
     (case f of
        NoAttribute v a \<Rightarrow> quoted (type_name v) @ '' object has no attribute '' @ quoted a
      | NoMethod m \<Rightarrow> quoted ''ReActWorkflow'' @ '' object has no attribute '' @ quoted m
      | MissingKey k \<Rightarrow> quoted k
      | BadSubscript v k \<Rightarrow>
          (case v of
             PList xs \<Rightarrow> ''list indices must be integers or slices, not str''
           | PStr x \<Rightarrow> ''string indices must be integers, not '' @ quoted ''str''
           | _ \<Rightarrow> quoted (type_name v) @ '' object is not subscriptable'')
      | NotIterable v \<Rightarrow> quoted (type_name v) @ '' object is not iterable''
      | NotContainer v \<Rightarrow> ''argument of type '' @ quoted (type_name v) @ '' is not iterable''
      | NotMapping v \<Rightarrow> ''argument after ** must be a mapping, not '' @ type_name v
      | InvalidModel m d \<Rightarrow> ''1 validation error for '' @ m)"

definition py :: pyrt where
  "py = \<lparr>json_loads = sample_loads, json_dumps = sample_dumps, str_of = sample_str,
         fault_str = sample_fault_str\<rparr>"

text \<open>
  The service registers the seven tools under their own names. The sample input models
  require \<open>symbols\<close> for \<open>stock_price\<close> and fill in its defaults.
\<close>

definition sample_bind :: "string \<Rightarrow> pydict \<Rightarrow> (exc_kind \<times> string) + pydict" where
  "sample_bind name d =
     (if name = ''stock_price'' then
        (case map_of d ''symbols'' of
           None \<Rightarrow> Inl (ValueError, ''symbols: Field required'')
         | Some v \<Rightarrow>
             Inr [(''symbols'', v),
                  (''data_type'', dict_get d ''data_type'' (PStr ''realtime'')),
                  (''start_date'', dict_get d ''start_date'' PNone),
                  (''end_date'', dict_get d ''end_date'' PNone)])
      else Inr d)"

definition service :: wiring where
  "service = \<lparr>tools = (\<lambda>k. if k \<in> set TOOL_INPUT_MODELS then Some k else None),
              bind_input = sample_bind\<rparr>"

definition price_tool :: "string \<Rightarrow> pydict \<Rightarrow> pyval outcome" where
  "price_tool name kwargs = Returns (PDict [(''FPT'', PInt 115000)])"

definition failing_tool :: "string \<Rightarrow> pydict \<Rightarrow> pyval outcome" where
  "failing_tool name kwargs = Raises ''connection refused''"

definition price_action_text :: string where
  "price_action_text =
     ''THOUGHT: look up the price.'' @ [nl] @ fence @ ''json'' @ [nl] @ price_action_json
       @ [nl] @ fence"


text \<open>
  The state after the reasoner asked for the price of FPT and the action node ran the
  tool, and the same with a tool that raises.
\<close>

definition asked_state :: agent_state where
  "asked_state = reasoning_node (Returns price_action_text) (initial_state ''Gia FPT?'')"

definition priced_state :: agent_state where
  "priced_state = action_node py service price_tool (Finite 1) asked_state"

definition unpriced_state :: agent_state where
  "unpriced_state = action_node py service failing_tool (Finite 1) asked_state"

text \<open>A reply of the reasoner that ends the run with a greeting.\<close>

definition greeting_reply :: string where
  "greeting_reply = ''THOUGHT: a greeting.'' @ [nl] @ ''**FINAL ANSWER**:  Xin chao!  '' @ [nl] @ ''RISK: none''"

definition greeted_state :: agent_state where
  "greeted_state = reasoning_node (Returns greeting_reply) (initial_state ''Chao ban'')"

text \<open>
  A reply that stops right behind the marker: the pattern matches and its group is empty.
\<close>

definition blank_answer_state :: agent_state where
  "blank_answer_state = reasoning_node (Returns ''**FINAL ANSWER**:'') (initial_state ''Chao ban'')"

text \<open>A reply that names no action and gives no final answer.\<close>

definition undecided_state :: agent_state where
  "undecided_state =
     reasoning_node (Returns ''THOUGHT: I am not sure which tool to use.'')
       (initial_state ''Gia FPT?'')"

definition stalled_state :: agent_state where
  "stalled_state = action_node py service price_tool (Finite 1) undecided_state"


text \<open>
  Two runs. In \<open>stalling_run\<close> the reasoner names no action and the reflector says \<open>end\<close>.
  In \<open>price_run\<close> the reasoner asks for the price of FPT and answers in the next cycle.
\<close>

definition stalling_run :: collaborators where
  "stalling_run =
     \<lparr>reasoner = (\<lambda>k. Returns ''THOUGHT: I am not sure which tool to use.''),
      tool_impl = (\<lambda>k. price_tool),
      tool_time = (\<lambda>k. Finite 1),
      reflector = (\<lambda>k. Returns end_verdict_json),
      synthesizer = Returns ''Chua co du lieu.''\<rparr>"

definition price_run :: collaborators where
  "price_run =
     \<lparr>reasoner = (\<lambda>k. if k = 0 then Returns price_action_text
                      else Returns ''**FINAL ANSWER**: FPT 115000 VND''),
      tool_impl = (\<lambda>k. price_tool),
      tool_time = (\<lambda>k. Finite 1),
      reflector = (\<lambda>k. Returns continue_verdict_json),
      synthesizer = Returns ''Chua co du lieu.''\<rparr>"

section \<open>The result formatter (C10)\<close>

lemma model_dump_arun_fault:
  "model_dump (arun name t (Raises e)) =
     [(''status'', PStr ''error''), (''data'', PDict []),
      (''metadata'', PDict (tool_state_dump name t))]"
  by (simp add: model_dump_def arun_def)

text \<open>
  Claim C10. For every tool name and every result dictionary: a dictionary without a
  \<open>status\<close> key is formatted as an error result; an error result without an \<open>error\<close> key
  is formatted as \<open>Tool {name} failed: Unknown error\<close>; and so is the result that
  \<open>CustomBaseTool._arun\<close> builds when the tool's implementation raises, whatever the
  exception was.
\<close>

theorem format_tool_result_unknown_error:
  "(map_of r ''status'' = None \<longrightarrow>
      format_tool_result rt n r =
        ''Tool '' @ n @ '' failed: '' @ fmt rt (dict_get r ''error'' (PStr ''Unknown error'')))
   \<and> (dict_get r ''status'' (PStr ''error'') = PStr ''error'' \<and> map_of r ''error'' = None \<longrightarrow>
      format_tool_result rt n r = ''Tool '' @ n @ '' failed: Unknown error'')
   \<and> format_tool_result rt n (model_dump (arun name t (Raises e))) =
        ''Tool '' @ n @ '' failed: Unknown error''"
proof (intro conjI impI)
  assume "map_of r ''status'' = None"
  then show "format_tool_result rt n r =
      ''Tool '' @ n @ '' failed: '' @ fmt rt (dict_get r ''error'' (PStr ''Unknown error''))"
    by (simp add: format_tool_result_def dict_get_def)
next
  assume "dict_get r ''status'' (PStr ''error'') = PStr ''error'' \<and> map_of r ''error'' = None"
  then show "format_tool_result rt n r = ''Tool '' @ n @ '' failed: Unknown error''"
    by (simp add: format_tool_result_def dict_get_def)
next
  show "format_tool_result rt n (model_dump (arun name t (Raises e))) =
      ''Tool '' @ n @ '' failed: Unknown error''"
    by (simp add: model_dump_arun_fault format_tool_result_def dict_get_def)
qed

text \<open>
  The theorem at a dictionary that has neither key, and at the result of a tool whose
  implementation raised.
\<close>

theorem format_tool_result_unknown_error_witness:
  "map_of [(''data'', PNone)] ''status'' = None
   \<and> dict_get [(''data'', PNone)] ''status'' (PStr ''error'') = PStr ''error''
   \<and> map_of [(''data'', PNone)] ''error'' = None
   \<and> format_tool_result py ''stock_price'' [(''data'', PNone)] =
        ''Tool stock_price failed: Unknown error''
   \<and> format_tool_result py ''stock_price''
        (model_dump (arun ''stock_price'' (Finite 2) (Raises ''connection refused''))) =
        ''Tool stock_price failed: Unknown error''"
  using format_tool_result_unknown_error
    [of "[(''data'', PNone)]" py "''stock_price''" "''stock_price''" "Finite 2"
        "''connection refused''"]
  by (simp add: dict_get_def)

section \<open>Facts about the string searches\<close>

lemma startswith_iff: "startswith s p \<longleftrightarrow> (\<exists>r. s = p @ r)"
proof
  assume "startswith s p"
  then have "s = p @ drop (length p) s"
    by (metis startswith_def append_take_drop_id)
  then show "\<exists>r. s = p @ r" ..
next
  assume "\<exists>r. s = p @ r"
  then show "startswith s p" by (auto simp: startswith_def)
qed

lemma py_in_iff: "py_in sub s \<longleftrightarrow> (\<exists>b a. s = b @ sub @ a)"
proof (induction s)
  case Nil
  then show ?case by auto
next
  case (Cons c cs)
  show ?case
  proof
    assume "py_in sub (c # cs)"
    then consider "startswith (c # cs) sub" | "py_in sub cs" by auto
    then show "\<exists>b a. c # cs = b @ sub @ a"
    proof cases
      case 1
      then obtain r where "c # cs = sub @ r" by (auto simp: startswith_iff)
      then have "c # cs = [] @ sub @ r" by simp
      then show ?thesis by blast
    next
      case 2
      with Cons obtain b a where "cs = b @ sub @ a" by blast
      then have "c # cs = (c # b) @ sub @ a" by simp
      then show ?thesis by blast
    qed
  next
    assume "\<exists>b a. c # cs = b @ sub @ a"
    then obtain b a where ba: "c # cs = b @ sub @ a" by blast
    show "py_in sub (c # cs)"
    proof (cases b)
      case Nil
      with ba have "startswith (c # cs) sub" by (auto simp: startswith_iff)
      then show ?thesis by simp
    next
      case (Cons x b')
      with ba have "cs = b' @ sub @ a" by simp
      with Cons.IH have "py_in sub cs" by blast
      then show ?thesis by simp
    qed
  qed
qed

lemma find_sub_Some: "find_sub sub s = Some p \<Longrightarrow> s = fst p @ sub @ snd p"
proof (induction s arbitrary: p)
  case Nil
  then show ?case by (auto split: if_splits)
next
  case (Cons c cs)
  show ?case
  proof (cases "startswith (c # cs) sub")
    case True
    with Cons.prems have "p = ([], drop (length sub) (c # cs))" by simp
    moreover from True have "c # cs = sub @ drop (length sub) (c # cs)"
      by (metis startswith_def append_take_drop_id)
    ultimately show ?thesis by simp
  next
    case False
    with Cons.prems obtain q where q: "find_sub sub cs = Some q" and p: "p = (c # fst q, snd q)"
      by auto
    from Cons.IH [OF q] p show ?thesis by simp
  qed
qed

lemma find_sub_None: "find_sub sub s = None \<longleftrightarrow> \<not> py_in sub s"
  by (induction s) auto

lemma py_in_find_sub: "py_in sub s \<longleftrightarrow> find_sub sub s \<noteq> None"
  by (simp add: find_sub_None)

lemma find_sub_leftmost:
  "find_sub sub s = Some p \<Longrightarrow> s = b @ sub @ a \<Longrightarrow> length (fst p) \<le> length b"
proof (induction s arbitrary: p b)
  case Nil
  then show ?case by (auto split: if_splits)
next
  case (Cons c cs)
  show ?case
  proof (cases "startswith (c # cs) sub")
    case True
    with Cons.prems(1) have "fst p = []" by auto
    then show ?thesis by simp
  next
    case False
    with Cons.prems(1) obtain q where q: "find_sub sub cs = Some q" and p: "p = (c # fst q, snd q)"
      by auto
    from False Cons.prems(2) have "b \<noteq> []" by (auto simp: startswith_iff)
    then obtain b' where b: "b = c # b'" using Cons.prems(2) by (cases b) auto
    with Cons.prems(2) have "cs = b' @ sub @ a" by simp
    from Cons.IH [OF q this] p b show ?thesis by simp
  qed
qed

lemma final_answer_search_iff:
  "final_answer_search text \<noteq> None \<longleftrightarrow> py_in ''**FINAL ANSWER**:'' text"
proof (cases "find_sub ''**FINAL ANSWER**:'' text")
  case None
  then show ?thesis by (simp add: final_answer_search_def find_sub_None [symmetric])
next
  case (Some p)
  then have "py_in ''**FINAL ANSWER**:'' text"
    by (simp add: py_in_find_sub)
  with Some show ?thesis by (simp add: final_answer_search_def)
qed

lemma json_block_search_Some:
  "json_block_search s = Some g \<Longrightarrow>
     \<exists>b a. s = b @ (fence @ ''json'' @ [nl]) @ g @ (nl # fence) @ a"
proof (induction s)
  case Nil
  then show ?case by simp
next
  case (Cons c cs)
  let ?opening = "fence @ ''json'' @ [nl]"
  have tail: "json_block_search cs = Some g \<Longrightarrow> ?case"
  proof -
    assume "json_block_search cs = Some g"
    with Cons.IH obtain b a where "cs = b @ ?opening @ g @ (nl # fence) @ a" by blast
    then have "c # cs = (c # b) @ ?opening @ g @ (nl # fence) @ a" by simp
    then show ?thesis by blast
  qed
  show ?case
  proof (cases "startswith (c # cs) ?opening")
    case False
    with Cons.prems have "json_block_search cs = Some g" by simp
    then show ?thesis by (rule tail)
  next
    case True
    show ?thesis
    proof (cases "find_sub (nl # fence) (drop 8 (c # cs))")
      case None
      with True Cons.prems have "json_block_search cs = Some g" by simp
      then show ?thesis by (rule tail)
    next
      case (Some p)
      with True Cons.prems have g: "g = fst p" by simp
      from True have "c # cs = ?opening @ drop (length ?opening) (c # cs)"
        by (metis startswith_def append_take_drop_id)
      moreover have "length ?opening = 8" by (simp add: fence_def)
      moreover from find_sub_Some [OF Some]
      have "drop 8 (c # cs) = fst p @ (nl # fence) @ snd p" .
      ultimately have "c # cs = [] @ ?opening @ g @ (nl # fence) @ snd p"
        using g by simp
      then show ?thesis by blast
    qed
  qed
qed

lemma json_block_search_None:
  "json_block_search s = None \<longleftrightarrow>
     \<not> (\<exists>b g a. s = b @ (fence @ ''json'' @ [nl]) @ g @ (nl # fence) @ a)"
proof
  assume "json_block_search s = None"
  then show "\<not> (\<exists>b g a. s = b @ (fence @ ''json'' @ [nl]) @ g @ (nl # fence) @ a)"
  proof (induction s)
    case Nil
    then show ?case by (simp add: fence_def)
  next
    case (Cons c cs)
    let ?opening = "fence @ ''json'' @ [nl]"
    from Cons.prems have tl: "json_block_search cs = None"
      by (auto split: if_splits option.splits)
    show ?case
    proof
      assume "\<exists>b g a. c # cs = b @ ?opening @ g @ (nl # fence) @ a"
      then obtain b g a where s: "c # cs = b @ ?opening @ g @ (nl # fence) @ a" by blast
      show False
      proof (cases b)
        case Nil
        with s have sw: "startswith (c # cs) ?opening" by (auto simp: startswith_iff)
        have "length ?opening = 8" by (simp add: fence_def)
        with s Nil have "drop 8 (c # cs) = g @ (nl # fence) @ a" by simp
        then have "py_in (nl # fence) (drop 8 (c # cs))" by (auto simp: py_in_iff)
        then have "find_sub (nl # fence) (drop 8 (c # cs)) \<noteq> None"
          by (simp add: find_sub_None)
        with sw Cons.prems show False by auto
      next
        case (Cons x b')
        with s have "cs = b' @ ?opening @ g @ (nl # fence) @ a" by simp
        with Cons.IH [OF tl] show False by blast
      qed
    qed
  qed
next
  assume "\<not> (\<exists>b g a. s = b @ (fence @ ''json'' @ [nl]) @ g @ (nl # fence) @ a)"
  then show "json_block_search s = None"
    using json_block_search_Some by (cases "json_block_search s") blast+
qed

section \<open>The reasoning node and the final-answer marker (C7)\<close>

lemma bold_marker_contains_marker:
  "py_in ''**FINAL ANSWER**:'' reply \<Longrightarrow> py_in ''FINAL ANSWER'' reply"
proof -
  assume "py_in ''**FINAL ANSWER**:'' reply"
  then obtain b a where "reply = b @ ''**FINAL ANSWER**:'' @ a" by (auto simp: py_in_iff)
  then have "reply = (b @ ''**'') @ ''FINAL ANSWER'' @ (''**:'' @ a)" by simp
  then show ?thesis unfolding py_in_iff by blast
qed

text \<open>
  Claim C7, as the code has it. The node tests the reply for the plain marker
  \<open>FINAL ANSWER\<close>, but extracts the answer with a pattern that needs the marker in bold
  and followed by a colon. When the reply contains \<open>**FINAL ANSWER**:\<close>, the final answer
  is the stripped text between the white space after its leftmost occurrence and the next
  newline (or the end of the reply), and the decision is \<open>end\<close>. When the reply does not
  contain it, the node leaves both fields as they were, whether or not the plain marker
  occurs.
\<close>

theorem reasoning_node_final_answer:
  "(py_in ''**FINAL ANSWER**:'' reply \<longrightarrow>
      (\<exists>pre rest. reply = pre @ ''**FINAL ANSWER**:'' @ rest
         \<and> (\<forall>pre' rest'. reply = pre' @ ''**FINAL ANSWER**:'' @ rest' \<longrightarrow> length pre \<le> length pre')
         \<and> final_answer (reasoning_node (Returns reply) s) =
             Some (py_strip (takeWhile (\<lambda>c. c \<noteq> nl) (lstrip rest)))
         \<and> reflection_decision (reasoning_node (Returns reply) s) = Some ''end''))
   \<and> (\<not> py_in ''**FINAL ANSWER**:'' reply \<longrightarrow>
        final_answer (reasoning_node (Returns reply) s) = final_answer s
        \<and> reflection_decision (reasoning_node (Returns reply) s) = reflection_decision s)"
proof (rule conjI; rule impI)
  assume bold: "py_in ''**FINAL ANSWER**:'' reply"
  then obtain p where p: "find_sub ''**FINAL ANSWER**:'' reply = Some p"
    by (auto simp: py_in_find_sub)
  have split: "reply = fst p @ ''**FINAL ANSWER**:'' @ snd p"
    using find_sub_Some [OF p] .
  have left: "\<forall>pre' rest'. reply = pre' @ ''**FINAL ANSWER**:'' @ rest' \<longrightarrow> length (fst p) \<le> length pre'"
    using find_sub_leftmost [OF p] by blast
  have plain: "py_in ''FINAL ANSWER'' reply" using bold by (rule bold_marker_contains_marker)
  have found: "final_answer_search reply = Some (takeWhile (\<lambda>c. c \<noteq> nl) (lstrip (snd p)))"
    using p by (simp add: final_answer_search_def)
  have "final_answer (reasoning_node (Returns reply) s) =
          Some (py_strip (takeWhile (\<lambda>c. c \<noteq> nl) (lstrip (snd p))))
        \<and> reflection_decision (reasoning_node (Returns reply) s) = Some ''end''"
    using plain found by (simp add: reasoning_node_def Let_def)
  with split left show "\<exists>pre rest. reply = pre @ ''**FINAL ANSWER**:'' @ rest
         \<and> (\<forall>pre' rest'. reply = pre' @ ''**FINAL ANSWER**:'' @ rest' \<longrightarrow> length pre \<le> length pre')
         \<and> final_answer (reasoning_node (Returns reply) s) =
             Some (py_strip (takeWhile (\<lambda>c. c \<noteq> nl) (lstrip rest)))
         \<and> reflection_decision (reasoning_node (Returns reply) s) = Some ''end''"
    by blast
next
  assume "\<not> py_in ''**FINAL ANSWER**:'' reply"
  then have "final_answer_search reply = None"
    using final_answer_search_iff [of reply] by blast
  then show "final_answer (reasoning_node (Returns reply) s) = final_answer s
        \<and> reflection_decision (reasoning_node (Returns reply) s) = reflection_decision s"
    by (simp add: reasoning_node_def Let_def)
qed

text \<open>
  The claim as stated fails: this reply contains the marker, without the bold formatting,
  and the node sets neither the final answer nor the decision.
\<close>

theorem reasoning_node_marker_counterexample:
  "py_in ''FINAL ANSWER'' ''FINAL ANSWER: Xin chao!''
   \<and> final_answer (reasoning_node (Returns ''FINAL ANSWER: Xin chao!'') (initial_state ''Chao ban'')) = None
   \<and> reflection_decision (reasoning_node (Returns ''FINAL ANSWER: Xin chao!'') (initial_state ''Chao ban'')) = Some ''continue''"
  by code_simp

text \<open>The theorem at a reply with the bold marker and at the reply without it.\<close>

theorem reasoning_node_final_answer_witness:
  "py_in ''**FINAL ANSWER**:'' greeting_reply
   \<and> final_answer (reasoning_node (Returns greeting_reply) (initial_state ''Chao ban'')) = Some ''Xin chao!''
   \<and> reflection_decision (reasoning_node (Returns greeting_reply) (initial_state ''Chao ban'')) = Some ''end''
   \<and> \<not> py_in ''**FINAL ANSWER**:'' ''FINAL ANSWER: Xin chao!''
   \<and> final_answer (reasoning_node (Returns ''FINAL ANSWER: Xin chao!'') (initial_state ''Chao ban''))
       = final_answer (initial_state ''Chao ban'')"
proof -
  have bold: "py_in ''**FINAL ANSWER**:'' greeting_reply" by code_simp
  have plain: "\<not> py_in ''**FINAL ANSWER**:'' ''FINAL ANSWER: Xin chao!''" by code_simp
  have answer: "final_answer (reasoning_node (Returns greeting_reply) (initial_state ''Chao ban''))
      = Some ''Xin chao!''"
    by code_simp
  from reasoning_node_final_answer
    [of greeting_reply "initial_state ''Chao ban''", THEN conjunct1, THEN mp, OF bold]
  have verdict: "reflection_decision (reasoning_node (Returns greeting_reply) (initial_state ''Chao ban''))
      = Some ''end''"
    by (elim exE conjE)
  from reasoning_node_final_answer
    [of "''FINAL ANSWER: Xin chao!''" "initial_state ''Chao ban''", THEN conjunct2, THEN mp, OF plain]
  have kept: "final_answer (reasoning_node (Returns ''FINAL ANSWER: Xin chao!'') (initial_state ''Chao ban''))
      = final_answer (initial_state ''Chao ban'')"
    by (rule conjunct1)
  from bold answer verdict plain kept show ?thesis by (intro conjI)
qed

section \<open>The action parser (C5)\<close>






section \<open>The dispatcher (C3)\<close>

lemma map_of_error_record [simp]:
  "map_of (error_record e n i) ''status'' = Some (PStr ''error'')"
  "map_of (error_record e n i) ''tool_name'' = Some (PStr n)"
  "map_of (error_record e n i) ''error'' = Some (PStr e)"
  by (simp_all add: error_record_def)

lemma map_of_model_dump [simp]:
  "map_of (model_dump r) ''status'' = Some (PStr (status r))"
  "map_of (model_dump r) ''metadata'' = Some (PDict (metadata r))"
  "map_of (model_dump r) ''tool_name'' = None"
  "map_of (model_dump r) ''error'' = None"
  by (simp_all add: model_dump_def)

lemma arun_fields [simp]:
  "status (arun name t impl) = (case impl of Returns d \<Rightarrow> ''success'' | Raises e \<Rightarrow> ''error'')"
  "map_of (metadata (arun name t impl)) ''tool_name'' = Some (PStr name)"
  by (simp_all add: arun_def tool_state_dump_def split: outcome.splits)

text \<open>
  Claim C3. For every tool name and every input string, the dispatcher returns a record
  whose \<open>status\<close> is \<open>success\<close> or \<open>error\<close> and which carries the tool name: at the top
  level of the records the dispatcher builds itself, and in the \<open>metadata\<close> of the result
  of \<open>_arun\<close>, where it is the \<open>name\<close> of the registered tool. The function is total, so
  no exception leaves it. An unknown tool, a missing input model, text that does not
  decode, decoded text that is not an object, input that the input model rejects and a
  fault of the tool's implementation all give \<open>status = error\<close>.
\<close>

theorem execute_tool_safely_total:
  "(\<exists>st. map_of (execute_tool_safely rt w impl t name inp) ''status'' = Some (PStr st)
         \<and> st \<in> {''success'', ''error''})
   \<and> (map_of (execute_tool_safely rt w impl t name inp) ''tool_name'' = Some (PStr name)
        \<or> (\<exists>registered md. tools w name = Some registered
              \<and> map_of (execute_tool_safely rt w impl t name inp) ''metadata'' = Some (PDict md)
              \<and> map_of md ''tool_name'' = Some (PStr registered)))
   \<and> ((tools w name = None
         \<or> name \<notin> set TOOL_INPUT_MODELS
         \<or> (\<exists>e. json_loads rt inp = Inl e)
         \<or> (\<exists>v. json_loads rt inp = Inr v \<and> (\<forall>kv. v \<noteq> PDict kv))
         \<or> (\<exists>kv x. json_loads rt inp = Inr (PDict kv) \<and> bind_input w name kv = Inl x)
         \<or> (\<exists>kv kwargs e. json_loads rt inp = Inr (PDict kv) \<and> bind_input w name kv = Inr kwargs
               \<and> impl name kwargs = Raises e))
        \<longrightarrow> map_of (execute_tool_safely rt w impl t name inp) ''status'' = Some (PStr ''error''))"
  unfolding execute_tool_safely_def
  by (auto split: option.splits sum.splits pyval.splits outcome.splits)

text \<open>
  The theorem at a successful call, an unknown tool, an input that is not JSON, an input
  without the required field, and a tool whose implementation raises.
\<close>

theorem execute_tool_safely_total_witness:
  "map_of (execute_tool_safely py service price_tool (Finite 1) ''stock_price'' symbols_json) ''status''
     = Some (PStr ''success'')
   \<and> map_of (execute_tool_safely py service price_tool (Finite 1) ''stock_price'' symbols_json) ''metadata''
     = Some (PDict (tool_state_dump ''stock_price'' (Finite 1)))
   \<and> tools service ''crystal_ball'' = None
   \<and> execute_tool_safely py service price_tool (Finite 1) ''crystal_ball'' symbols_json
     = error_record (quoted ''crystal_ball'') ''crystal_ball'' symbols_json
   \<and> json_loads py ''symbols=FPT'' = Inl ''Expecting value: line 1 column 1 (char 0)''
   \<and> map_of (execute_tool_safely py service price_tool (Finite 1) ''stock_price'' ''symbols=FPT'') ''status''
     = Some (PStr ''error'')
   \<and> json_loads py ''{}'' = Inr (PDict [])
   \<and> bind_input service ''stock_price'' [] = Inl (ValueError, ''symbols: Field required'')
   \<and> map_of (execute_tool_safely py service price_tool (Finite 1) ''stock_price'' ''{}'') ''status''
     = Some (PStr ''error'')
   \<and> map_of (execute_tool_safely py service failing_tool (Finite 1) ''stock_price'' symbols_json) ''status''
     = Some (PStr ''error'')"
proof -
  have ok: "execute_tool_safely py service price_tool (Finite 1) ''stock_price'' symbols_json =
      model_dump (arun ''stock_price'' (Finite 1) (Returns (PDict [(''FPT'', PInt 115000)])))"
    by code_simp
  have unknown: "tools service ''crystal_ball'' = None" by code_simp
  have unknown_record:
    "execute_tool_safely py service price_tool (Finite 1) ''crystal_ball'' symbols_json
       = error_record (quoted ''crystal_ball'') ''crystal_ball'' symbols_json"
    by code_simp
  have malformed: "json_loads py ''symbols=FPT'' = Inl ''Expecting value: line 1 column 1 (char 0)''"
    by code_simp
  have empty: "json_loads py ''{}'' = Inr (PDict [])" by code_simp
  have unbound: "bind_input service ''stock_price'' [] = Inl (ValueError, ''symbols: Field required'')"
    by code_simp
  have decoded: "json_loads py symbols_json = Inr (PDict [(''symbols'', PStr ''FPT'')])"
    by code_simp
  have bound: "bind_input service ''stock_price'' [(''symbols'', PStr ''FPT'')] =
      Inr [(''symbols'', PStr ''FPT''), (''data_type'', PStr ''realtime''),
           (''start_date'', PNone), (''end_date'', PNone)]"
    by code_simp
  have raised: "failing_tool ''stock_price''
      [(''symbols'', PStr ''FPT''), (''data_type'', PStr ''realtime''),
       (''start_date'', PNone), (''end_date'', PNone)] = Raises ''connection refused''"
    by (simp add: failing_tool_def)
  note failure = execute_tool_safely_total [THEN conjunct2, THEN conjunct2, THEN mp]
  have c3: "map_of (execute_tool_safely py service price_tool (Finite 1) ''stock_price'' ''symbols=FPT'') ''status''
     = Some (PStr ''error'')"
    by (rule failure) (simp add: malformed)
  have c4: "map_of (execute_tool_safely py service price_tool (Finite 1) ''stock_price'' ''{}'') ''status''
     = Some (PStr ''error'')"
    by (rule failure) (simp add: empty unbound)
  have c5: "map_of (execute_tool_safely py service failing_tool (Finite 1) ''stock_price'' symbols_json) ''status''
     = Some (PStr ''error'')"
    by (rule failure) (simp add: decoded bound raised)
  show ?thesis
    unfolding ok using unknown unknown_record malformed c3 empty unbound c4 c5
    by (simp add: arun_def)
qed

section \<open>The action node's two sequences (C4, C8)\<close>

lemma to_tool_result_execute:
  "\<exists>output. to_tool_result (execute_tool_safely rt w impl t name inp) = Inr output"
  unfolding execute_tool_safely_def
  by (auto simp: to_tool_result_def error_record_def model_dump_def dict_get_def
           split: option.splits sum.splits pyval.splits)

lemma parse_tool_usage_name:
  "parse_tool_usage rt reg message = (Some name, x) \<Longrightarrow> name \<noteq> []"
  unfolding parse_tool_usage_def
  by (auto split: option.splits sum.splits pyval.splits if_splits)

lemma action_node_dispatch:
  assumes "\<not> truthy_opt (final_answer s)"
    and "parse_tool_usage rt (tools w) (latest_response s) = (Some name, Some inp)"
    and "inp \<noteq> []"
  shows "action_node rt w impl t s =
     s\<lparr>messages := messages s @
           [AIMessage (''Observation: '' @
              format_tool_result rt name (execute_tool_safely rt w impl t name inp))],
       current_step := current_step s + 1,
       tools_used := tools_used s @ [name],
       intermediate_results := intermediate_results s @
         [[(''llm_output'', PStr (latest_response s)),
           (''observation'', PStr (format_tool_result rt name (execute_tool_safely rt w impl t name inp))),
           (''tool_name'', PStr name),
           (''success'', PBool (map_of (execute_tool_safely rt w impl t name inp) ''status''
                                 = Some (PStr ''success'')))]],
       tool_output := (case to_tool_result (execute_tool_safely rt w impl t name inp) of
                         Inr output \<Rightarrow> Some output | Inl f \<Rightarrow> None)\<rparr>"
proof -
  obtain built where "to_tool_result (execute_tool_safely rt w impl t name inp) = Inr built"
    using to_tool_result_execute by blast
  moreover have "name \<noteq> []" using assms(2) by (rule parse_tool_usage_name)
  ultimately show ?thesis
    using assms by (simp add: action_node_def Let_def)
qed

lemma action_node_no_dispatch:
  assumes "truthy_opt (final_answer s)
           \<or> (\<forall>name inp. parse_tool_usage rt (tools w) (latest_response s) = (Some name, Some inp)
                 \<longrightarrow> inp = [])"
  shows "tools_used (action_node rt w impl t s) = tools_used s
       \<and> intermediate_results (action_node rt w impl t s) = intermediate_results s"
  using assms
  by (auto simp: action_node_def Let_def no_valid_action_def
           split: option.splits prod.splits)

lemma action_node_lists:
  "(tools_used (action_node rt w impl t s) = tools_used s
      \<and> intermediate_results (action_node rt w impl t s) = intermediate_results s)
   \<or> (\<exists>name r. tools_used (action_node rt w impl t s) = tools_used s @ [name]
         \<and> intermediate_results (action_node rt w impl t s) = intermediate_results s @ [r]
         \<and> map fst r = [''llm_output'', ''observation'', ''tool_name'', ''success'']
         \<and> map_of r ''tool_name'' = Some (PStr name))"
proof (cases "\<not> truthy_opt (final_answer s)
              \<and> (\<exists>name inp. parse_tool_usage rt (tools w) (latest_response s) = (Some name, Some inp)
                    \<and> inp \<noteq> [])")
  case True
  then obtain name inp where "\<not> truthy_opt (final_answer s)"
    "parse_tool_usage rt (tools w) (latest_response s) = (Some name, Some inp)" "inp \<noteq> []"
    by blast
  from action_node_dispatch [OF this] show ?thesis by simp
next
  case False
  then have "truthy_opt (final_answer s)
           \<or> (\<forall>name inp. parse_tool_usage rt (tools w) (latest_response s) = (Some name, Some inp)
                 \<longrightarrow> inp = [])"
    by blast
  from action_node_no_dispatch [OF this] show ?thesis by blast
qed

lemma reasoning_node_lists [simp]:
  "tools_used (reasoning_node llm s) = tools_used s"
  "intermediate_results (reasoning_node llm s) = intermediate_results s"
  by (simp_all add: reasoning_node_def Let_def split: outcome.splits option.splits)

lemma reflection_node_lists [simp]:
  "tools_used (reflection_node rt llm s) = tools_used s"
  "intermediate_results (reflection_node rt llm s) = intermediate_results s"
  by (simp_all add: reflection_node_def reflection_failed_def apply_evaluation_def Let_def
        split: outcome.splits sum.splits)

lemma final_output_node_lists [simp]:
  "tools_used (final_output_node llm s) = tools_used s"
  "intermediate_results (final_output_node llm s) = intermediate_results s"
  by (simp_all add: final_output_node_def Let_def)

lemma aligned_action: "aligned s \<Longrightarrow> aligned (action_node rt w impl t s)"
  using action_node_lists [of rt w impl t s] by (auto simp: aligned_def)

lemma reachable_aligned: "reachable rt w s \<Longrightarrow> aligned s"
proof (induction rule: reachable.induct)
  case (start query)
  show ?case by (simp add: aligned_def initial_state_def)
next
  case (action s impl t)
  then show ?case by (simp add: aligned_action)
qed (simp_all add: aligned_def)

lemma reachable_cycle: "reachable rt w s \<Longrightarrow> reachable rt w (cycle rt w env k s)"
  unfolding cycle_def by (intro reachable.reflection reachable.action reachable.reasoning)

lemma reachable_workflow_loop:
  "reachable rt w s \<Longrightarrow> reachable rt w (fst (workflow_loop rt w env k s))"
proof (induction rt w env k s rule: workflow_loop.induct)
  case (1 rt w env k s)
  show ?case
  proof (cases "should_continue (cycle rt w env k s) = ''continue''")
    case True
    with "1.IH" "1.prems" reachable_cycle show ?thesis
      by (simp add: workflow_loop.simps [of rt w env k s])
  next
    case False
    with "1.prems" show ?thesis
      by (simp add: workflow_loop.simps [of rt w env k s] reachable.final_output reachable_cycle)
  qed
qed

text \<open>
  Claim C4. In every state reachable during a run, \<open>tools_used\<close> and
  \<open>intermediate_results\<close> have the same length, and for every index \<open>i\<close> the entry
  \<open>intermediate_results[i]\<close> has the field \<open>tool_name\<close> with the value \<open>tools_used[i]\<close>. The
  action node is the only node that writes either sequence (the lemmas
  \<open>reasoning_node_lists\<close>, \<open>reflection_node_lists\<close> and \<open>final_output_node_lists\<close>), and it
  appends to both the same name (\<open>action_node_lists\<close>).
\<close>

theorem reachable_index_aligned:
  assumes "reachable rt w s"
  shows "length (tools_used s) = length (intermediate_results s)
       \<and> (\<forall>i. i < length (tools_used s) \<longrightarrow>
             map_of (intermediate_results s ! i) ''tool_name'' = Some (PStr (tools_used s ! i)))"
proof -
  from assms have eq: "map (\<lambda>r. map_of r ''tool_name'') (intermediate_results s) =
     map (\<lambda>name. Some (PStr name)) (tools_used s)"
    using reachable_aligned by (simp add: aligned_def)
  then have len: "length (tools_used s) = length (intermediate_results s)"
    by (metis length_map)
  have "map_of (intermediate_results s ! i) ''tool_name'' = Some (PStr (tools_used s ! i))"
    if "i < length (tools_used s)" for i
  proof -
    from that len have "i < length (intermediate_results s)" by simp
    then have "map (\<lambda>r. map_of r ''tool_name'') (intermediate_results s) ! i
        = map_of (intermediate_results s ! i) ''tool_name''" by simp
    moreover from that have "map (\<lambda>name. Some (PStr name)) (tools_used s) ! i
        = Some (PStr (tools_used s ! i))" by simp
    ultimately show ?thesis using eq by simp
  qed
  with len show ?thesis by blast
qed

text \<open>The theorem at the state after one call of the price tool.\<close>

theorem reachable_index_aligned_witness:
  "reachable py service priced_state
   \<and> tools_used priced_state = [''stock_price'']
   \<and> length (tools_used priced_state) = length (intermediate_results priced_state)
   \<and> map_of (intermediate_results priced_state ! 0) ''tool_name'' = Some (PStr ''stock_price'')"
proof -
  have r: "reachable py service priced_state"
    unfolding priced_state_def asked_state_def
    by (intro reachable.action reachable.reasoning reachable.start)
  have used: "tools_used priced_state = [''stock_price'']" by code_simp
  from reachable_index_aligned [OF r] used r show ?thesis by simp
qed

text \<open>
  Claim C8, as the code has it. An action step that dispatches a tool (no final answer
  yet, and the latest reply names an action with a non-empty input) appends exactly one
  record, with the four fields \<open>llm_output\<close>, \<open>observation\<close>, \<open>tool_name\<close> and \<open>success\<close>.
  An action step that dispatches no tool (a final answer is already there, or the latest
  reply names no action) appends no record. The sequence is append-only: the action node
  leaves the earlier records in place and adds at most one, and the other three nodes do
  not change the sequence.
\<close>

theorem action_node_appends_record:
  "(\<not> truthy_opt (final_answer s)
      \<and> parse_tool_usage rt (tools w) (latest_response s) = (Some name, Some inp) \<and> inp \<noteq> [] \<longrightarrow>
      intermediate_results (action_node rt w impl t s) = intermediate_results s @
         [[(''llm_output'', PStr (latest_response s)),
           (''observation'', PStr (format_tool_result rt name (execute_tool_safely rt w impl t name inp))),
           (''tool_name'', PStr name),
           (''success'', PBool (map_of (execute_tool_safely rt w impl t name inp) ''status''
                                 = Some (PStr ''success'')))]])
   \<and> (truthy_opt (final_answer s)
        \<or> (\<forall>name inp. parse_tool_usage rt (tools w) (latest_response s) = (Some name, Some inp)
               \<longrightarrow> inp = []) \<longrightarrow>
      intermediate_results (action_node rt w impl t s) = intermediate_results s)
   \<and> (\<exists>rs. intermediate_results (action_node rt w impl t s) = intermediate_results s @ rs
            \<and> length rs \<le> 1)
   \<and> intermediate_results (reasoning_node llm1 s) = intermediate_results s
   \<and> intermediate_results (reflection_node rt llm2 s) = intermediate_results s
   \<and> intermediate_results (final_output_node llm3 s) = intermediate_results s"
proof (intro conjI)
  show "\<not> truthy_opt (final_answer s)
      \<and> parse_tool_usage rt (tools w) (latest_response s) = (Some name, Some inp) \<and> inp \<noteq> [] \<longrightarrow>
      intermediate_results (action_node rt w impl t s) = intermediate_results s @
         [[(''llm_output'', PStr (latest_response s)),
           (''observation'', PStr (format_tool_result rt name (execute_tool_safely rt w impl t name inp))),
           (''tool_name'', PStr name),
           (''success'', PBool (map_of (execute_tool_safely rt w impl t name inp) ''status''
                                 = Some (PStr ''success'')))]]"
    using action_node_dispatch [of s rt w name inp impl t] by auto
next
  show "truthy_opt (final_answer s)
        \<or> (\<forall>name inp. parse_tool_usage rt (tools w) (latest_response s) = (Some name, Some inp)
               \<longrightarrow> inp = []) \<longrightarrow>
      intermediate_results (action_node rt w impl t s) = intermediate_results s"
    using action_node_no_dispatch [of s rt w impl t] by blast
next
  show "\<exists>rs. intermediate_results (action_node rt w impl t s) = intermediate_results s @ rs
            \<and> length rs \<le> 1"
    using action_node_lists [of rt w impl t s]
    by (metis append_Nil2 le_numeral_extra(4) length_Cons list.size(3) zero_le One_nat_def)
qed simp_all

text \<open>
  The claim as stated fails twice. The record the action node appends has no field
  \<open>error_message\<close>, not even when the tool failed. And an action step that finds no action
  in the latest reply is completed and counted (\<open>current_step\<close> goes from 0 to 1), yet it
  appends no record.
\<close>

theorem action_node_record_fields_counterexample:
  "intermediate_results unpriced_state =
     [[(''llm_output'', PStr price_action_text),
       (''observation'', PStr ''Tool stock_price failed: Unknown error''),
       (''tool_name'', PStr ''stock_price''),
       (''success'', PBool False)]]
   \<and> map_of (last (intermediate_results unpriced_state)) ''error_message'' = None
   \<and> stalled_state = action_node py service price_tool (Finite 1) undecided_state
   \<and> current_step undecided_state = 0
   \<and> current_step stalled_state = 1
   \<and> intermediate_results undecided_state = []
   \<and> intermediate_results stalled_state = []"
  by code_simp

text \<open>
  The theorem at the step that runs the price tool, and at the step that finds no action
  in the latest reply.
\<close>

theorem action_node_appends_record_witness:
  "\<not> truthy_opt (final_answer asked_state)
   \<and> parse_tool_usage py (tools service) (latest_response asked_state) = (Some ''stock_price'', Some symbols_json)
   \<and> symbols_json \<noteq> []
   \<and> intermediate_results priced_state =
       [[(''llm_output'', PStr price_action_text),
         (''observation'', PStr ''Stock price data: {\"FPT\": 115000}''),
         (''tool_name'', PStr ''stock_price''),
         (''success'', PBool True)]]
   \<and> parse_tool_usage py (tools service) (latest_response undecided_state) = (None, None)
   \<and> intermediate_results stalled_state = intermediate_results undecided_state"
proof -
  have n: "parse_tool_usage py (tools service) (latest_response undecided_state) = (None, None)"
    by code_simp
  have "truthy_opt (final_answer undecided_state)
        \<or> (\<forall>name inp. parse_tool_usage py (tools service) (latest_response undecided_state)
                          = (Some name, Some inp) \<longrightarrow> inp = [])"
    unfolding n by simp
  then have "intermediate_results (action_node py service price_tool (Finite 1) undecided_state)
      = intermediate_results undecided_state"
    by (rule action_node_appends_record [THEN conjunct2, THEN conjunct1, THEN mp])
  then have k: "intermediate_results stalled_state = intermediate_results undecided_state"
    unfolding stalled_state_def .
  have a: "\<not> truthy_opt (final_answer asked_state)" by code_simp
  have b: "parse_tool_usage py (tools service) (latest_response asked_state) = (Some ''stock_price'', Some symbols_json)"
    by code_simp
  have c: "symbols_json \<noteq> []" by code_simp
  have d: "latest_response asked_state = price_action_text" by code_simp
  have e: "intermediate_results asked_state = []" by code_simp
  have f: "format_tool_result py ''stock_price''
      (execute_tool_safely py service price_tool (Finite 1) ''stock_price'' symbols_json)
      = ''Stock price data: {\"FPT\": 115000}''" by code_simp
  have g: "map_of (execute_tool_safely py service price_tool (Finite 1) ''stock_price'' symbols_json) ''status''
      = Some (PStr ''success'')" by code_simp
  have "intermediate_results (action_node py service price_tool (Finite 1) asked_state) =
      intermediate_results asked_state @
         [[(''llm_output'', PStr (latest_response asked_state)),
           (''observation'', PStr (format_tool_result py ''stock_price''
               (execute_tool_safely py service price_tool (Finite 1) ''stock_price'' symbols_json))),
           (''tool_name'', PStr ''stock_price''),
           (''success'', PBool (map_of (execute_tool_safely py service price_tool (Finite 1) ''stock_price'' symbols_json) ''status''
                                 = Some (PStr ''success'')))]]"
    using a b c by (intro action_node_appends_record [THEN conjunct1, THEN mp] conjI)
  then have "intermediate_results priced_state =
       [[(''llm_output'', PStr price_action_text),
         (''observation'', PStr ''Stock price data: {\"FPT\": 115000}''),
         (''tool_name'', PStr ''stock_price''),
         (''success'', PBool True)]]"
    unfolding d e f g priced_state_def by simp
  with a b c n k show ?thesis by (intro conjI)
qed

section \<open>Precedence of the final answer (C2)\<close>

lemma action_node_skip:
  "truthy_opt (final_answer s) \<Longrightarrow>
     action_node rt w impl t s = s\<lparr>reflection_decision := Some ''end''\<rparr>"
  by (simp add: action_node_def)

lemma reflection_node_skip:
  "truthy_opt (final_answer s) \<Longrightarrow>
     reflection_node rt llm s =
       s\<lparr>reflection_decision := Some ''end'',
         reflection_notes := reflection_notes s @ [''Skipped reflection due to existing final answer'']\<rparr>"
  by (simp add: reflection_node_def)

lemma final_output_node_pass:
  "truthy_opt (final_answer s) \<Longrightarrow> final_answer (final_output_node llm s) = final_answer s"
  by (simp add: final_output_node_def)

lemma should_continue_answered:
  "truthy_opt (final_answer s) \<Longrightarrow> should_continue s = ''end''"
  by (simp add: should_continue_def)

text \<open>
  Claim C2, as the code has it. The nodes and the conditional edge test the final answer
  for truth, so what they protect is a non-empty answer. Once \<open>final_answer\<close> is a
  non-empty string, the action node returns the state with only \<open>reflection_decision\<close>
  set to \<open>end\<close> (no tool runs, nothing else changes), the reflection node and the
  final-output node leave the answer as it is, and the conditional edge behind the
  reflection node answers \<open>end\<close>, which is the edge to \<open>final_output\<close>.
\<close>

theorem final_answer_precedence:
  assumes "truthy_opt (final_answer s)"
  shows "action_node rt w impl t s = s\<lparr>reflection_decision := Some ''end''\<rparr>
       \<and> final_answer (reflection_node rt llm2 s) = final_answer s
       \<and> reflection_decision (reflection_node rt llm2 s) = Some ''end''
       \<and> final_answer (final_output_node llm3 s) = final_answer s
       \<and> should_continue s = ''end''
       \<and> should_continue (reflection_node rt llm2 (action_node rt w impl t s)) = ''end''
       \<and> final_answer (final_output_node llm3 (reflection_node rt llm2 (action_node rt w impl t s)))
           = final_answer s"
proof -
  let ?a = "action_node rt w impl t s"
  let ?r = "reflection_node rt llm2 ?a"
  have a: "?a = s\<lparr>reflection_decision := Some ''end''\<rparr>"
    using assms by (rule action_node_skip)
  then have ta: "truthy_opt (final_answer ?a)" and fa: "final_answer ?a = final_answer s"
    using assms by simp_all
  have r: "final_answer ?r = final_answer ?a"
    using reflection_node_skip [OF ta] by simp
  with ta have tr: "truthy_opt (final_answer ?r)" by simp
  have "final_answer (final_output_node llm3 ?r) = final_answer ?r"
    using tr by (rule final_output_node_pass)
  moreover have "should_continue ?r = ''end''" using tr by (rule should_continue_answered)
  moreover have "final_answer (reflection_node rt llm2 s) = final_answer s"
    and "reflection_decision (reflection_node rt llm2 s) = Some ''end''"
    using reflection_node_skip [OF assms] by simp_all
  moreover have "final_answer (final_output_node llm3 s) = final_answer s"
    using assms by (rule final_output_node_pass)
  moreover have "should_continue s = ''end''" using assms by (rule should_continue_answered)
  ultimately show ?thesis using a r fa by simp
qed

text \<open>
  The claim as stated fails for the one non-null answer that is empty. The reasoning node
  sets it when the reply stops behind the marker. The action node then does not skip, a
  failing reflector overwrites the answer, and a reflector that says \<open>continue\<close> sends the
  run back to the reasoning node.
\<close>

theorem empty_final_answer_counterexample:
  "final_answer blank_answer_state = Some []
   \<and> final_answer (reflection_node py (Raises ''timeout'')
        (action_node py service price_tool (Finite 1) blank_answer_state)) = Some ''Error: timeout''
   \<and> should_continue (reflection_node py (Returns continue_verdict_json)
        (action_node py service price_tool (Finite 1) blank_answer_state)) = ''continue''"
  by code_simp

text \<open>The theorem at the state the reasoning node returns for a greeting.\<close>

theorem final_answer_precedence_witness:
  "truthy_opt (final_answer greeted_state)
   \<and> final_answer greeted_state = Some ''Xin chao!''
   \<and> action_node py service price_tool (Finite 1) greeted_state = greeted_state\<lparr>reflection_decision := Some ''end''\<rparr>
   \<and> final_answer (final_output_node (Raises ''timeout'')
        (reflection_node py (Raises ''timeout'') (action_node py service price_tool (Finite 1) greeted_state)))
       = Some ''Xin chao!''
   \<and> should_continue (reflection_node py (Raises ''timeout'')
        (action_node py service price_tool (Finite 1) greeted_state)) = ''end''"
proof -
  have t: "truthy_opt (final_answer greeted_state)" by code_simp
  have v: "final_answer greeted_state = Some ''Xin chao!''" by code_simp
  note p = final_answer_precedence
    [OF t, of py service price_tool "Finite 1" "Raises ''timeout''" "Raises ''timeout''",
     unfolded v]
  from p t v show ?thesis by (elim conjE) (intro conjI; assumption)
qed

section \<open>The reflection node's fall-back (C6)\<close>









section \<open>A reasoning turn without an action (C9)\<close>

lemma action_node_no_action:
  assumes "\<not> truthy_opt (final_answer s)"
    and "parse_tool_usage rt (tools w) (latest_response s) = (None, None)"
  shows "action_node rt w impl t s =
     s\<lparr>messages := messages s @ [AIMessage ''No valid tool action found''],
       current_step := current_step s + 1,
       reflection_decision := Some ''continue''\<rparr>"
  using assms by (simp add: action_node_def no_valid_action_def)

lemma reflection_node_loops_back:
  assumes "\<not> truthy_opt (final_answer s)"
  shows "should_continue (reflection_node rt llm s) = ''continue'' \<longleftrightarrow>
     current_step s < max_steps s
     \<and> (\<exists>response ev. llm = Returns response
           \<and> checked_evaluation rt (clean_evaluation response) = Inr ev
           \<and> decision ev \<noteq> ''end'')"
proof (cases llm)
  case (Raises e)
  with assms show ?thesis
    by (simp add: reflection_node_def reflection_failed_def should_continue_def)
next
  case (Returns response)
  show ?thesis
  proof (cases "checked_evaluation rt (clean_evaluation response)")
    case (Inl f)
    with assms Returns show ?thesis
      by (simp add: reflection_node_def reflection_failed_def should_continue_def)
  next
    case (Inr ev)
    with assms Returns show ?thesis
      by (auto simp: reflection_node_def apply_evaluation_def Let_def should_continue_def)
  qed
qed

text \<open>
  Claim C9, as the code has it. When the state has no final answer and the latest reply
  names no action, the action node appends the notice \<open>No valid tool action found\<close>, adds
  one to \<open>current_step\<close> and sets \<open>reflection_decision\<close> to \<open>continue\<close>. That value does
  not settle the next transition: the reflection node follows, asks the reflector and
  replaces the decision. The conditional edge \<open>_should_continue\<close>, evaluated on the state
  the reflection node returns, answers \<open>continue\<close> (the edge to the reasoning node) when the
  counter is still below \<open>max_steps\<close> and the reflector's response passes the node's checks
  with a decision other than \<open>end\<close>, and answers \<open>end\<close> (the edge to \<open>final_output\<close>)
  otherwise. The statement is about the value of the edge function; it says nothing of
  what the runtime that executes the graph does with it.
\<close>

theorem no_valid_action_step:
  "\<not> truthy_opt (final_answer s)
     \<and> parse_tool_usage rt (tools w) (latest_response s) = (None, None) \<longrightarrow>
     action_node rt w impl t s =
       s\<lparr>messages := messages s @ [AIMessage ''No valid tool action found''],
         current_step := current_step s + 1,
         reflection_decision := Some ''continue''\<rparr>
     \<and> (should_continue (reflection_node rt llm (action_node rt w impl t s)) = ''continue'' \<longleftrightarrow>
          current_step s + 1 < max_steps s
          \<and> (\<exists>response ev. llm = Returns response
                \<and> checked_evaluation rt (clean_evaluation response) = Inr ev
                \<and> decision ev \<noteq> ''end''))"
proof
  assume h: "\<not> truthy_opt (final_answer s)
     \<and> parse_tool_usage rt (tools w) (latest_response s) = (None, None)"
  then have a: "action_node rt w impl t s =
       s\<lparr>messages := messages s @ [AIMessage ''No valid tool action found''],
         current_step := current_step s + 1,
         reflection_decision := Some ''continue''\<rparr>"
    by (simp add: action_node_no_action)
  with h have "\<not> truthy_opt (final_answer (action_node rt w impl t s))" by simp
  from reflection_node_loops_back [OF this, of rt llm] a
  show "action_node rt w impl t s =
       s\<lparr>messages := messages s @ [AIMessage ''No valid tool action found''],
         current_step := current_step s + 1,
         reflection_decision := Some ''continue''\<rparr>
     \<and> (should_continue (reflection_node rt llm (action_node rt w impl t s)) = ''continue'' \<longleftrightarrow>
          current_step s + 1 < max_steps s
          \<and> (\<exists>response ev. llm = Returns response
                \<and> checked_evaluation rt (clean_evaluation response) = Inr ev
                \<and> decision ev \<noteq> ''end''))"
    by simp
qed

text \<open>
  The claim as stated fails: the action node finds no action, sets \<open>continue\<close>, the counter
  is 1 of 10, and the conditional edge still answers \<open>end\<close>, because the reflector says
  \<open>end\<close>; the graph leaves its loop at that point, after one cycle.
\<close>

theorem no_valid_action_run_ends_counterexample:
  "final_answer undecided_state = None
   \<and> parse_tool_usage py (tools service) (latest_response undecided_state) = (None, None)
   \<and> reflection_decision stalled_state = Some ''continue''
   \<and> current_step stalled_state = 1
   \<and> max_steps stalled_state = 10
   \<and> should_continue (reflection_node py (Returns end_verdict_json) stalled_state) = ''end''
   \<and> snd (workflow_loop py service stalling_run 0 (initial_state ''Gia FPT?'')) = 1"
  by code_simp

text \<open>
  The theorem at the state after a reply without an action, with a reflector that says
  \<open>continue\<close> and with one that says \<open>end\<close>.
\<close>

theorem no_valid_action_step_witness:
  "\<not> truthy_opt (final_answer undecided_state)
   \<and> parse_tool_usage py (tools service) (latest_response undecided_state) = (None, None)
   \<and> messages stalled_state =
        [HumanMessage ''Gia FPT?'', AIMessage ''THOUGHT: I am not sure which tool to use.'',
         AIMessage ''No valid tool action found'']
   \<and> current_step stalled_state = current_step undecided_state + 1
   \<and> reflection_decision stalled_state = Some ''continue''
   \<and> should_continue (reflection_node py (Returns continue_verdict_json) stalled_state) = ''continue''
   \<and> should_continue (reflection_node py (Returns end_verdict_json) stalled_state) = ''end''"
proof -
  have h: "\<not> truthy_opt (final_answer undecided_state)
     \<and> parse_tool_usage py (tools service) (latest_response undecided_state) = (None, None)"
    by code_simp
  have m: "messages undecided_state =
      [HumanMessage ''Gia FPT?'', AIMessage ''THOUGHT: I am not sure which tool to use.'']"
    by code_simp
  have loops: "should_continue (reflection_node py (Returns continue_verdict_json) stalled_state) = ''continue''"
    by code_simp
  have ends: "should_continue (reflection_node py (Returns end_verdict_json) stalled_state) = ''end''"
    by code_simp
  have eq: "stalled_state =
       undecided_state\<lparr>messages := messages undecided_state @ [AIMessage ''No valid tool action found''],
         current_step := current_step undecided_state + 1,
         reflection_decision := Some ''continue''\<rparr>"
    unfolding stalled_state_def
    using no_valid_action_step [THEN mp, OF h, of price_tool "Finite 1"] by (rule conjunct1)
  have m3: "messages stalled_state =
        [HumanMessage ''Gia FPT?'', AIMessage ''THOUGHT: I am not sure which tool to use.'',
         AIMessage ''No valid tool action found'']"
    by (subst eq) (simp add: m)
  have step: "current_step stalled_state = current_step undecided_state + 1"
    by (subst eq) simp
  have verdict: "reflection_decision stalled_state = Some ''continue''"
    by (subst eq) simp
  from h m3 step verdict loops ends show ?thesis by (intro conjI) simp_all
qed

section \<open>Termination of \<open>run\<close> (C1)\<close>

lemma final_output_answered: "truthy_opt (final_answer (final_output_node llm s))"
  by (simp add: final_output_node_def generate_final_answer_def Let_def no_query_answer_def
        synthesis_failed_answer_def empty_response_answer_def split: outcome.splits)

lemma workflow_loop_answered: "truthy_opt (final_answer (fst (workflow_loop rt w env k s)))"
proof (induction rt w env k s rule: workflow_loop.induct)
  case (1 rt w env k s)
  then show ?case
    by (cases "should_continue (cycle rt w env k s) = ''continue''")
       (simp_all add: workflow_loop.simps [of rt w env k s] final_output_answered)
qed

lemma workflow_loop_cycles:
  "snd (workflow_loop rt w env k s) \<le> k + max 1 (nat (max_steps s - current_step s))"
proof (induction rt w env k s rule: workflow_loop.induct)
  case (1 rt w env k s)
  show ?case
  proof (cases "should_continue (cycle rt w env k s) = ''continue''")
    case True
    then have open_state: "\<not> truthy_opt (final_answer (cycle rt w env k s))"
      and below: "current_step (cycle rt w env k s) < max_steps (cycle rt w env k s)"
      using should_continue_continue by blast+
    from open_state have "current_step s + 1 \<le> current_step (cycle rt w env k s)"
      by (rule cycle_progress)
    moreover from "1.IH" [OF True]
    have "snd (workflow_loop rt w env (Suc k) (cycle rt w env k s))
        \<le> Suc k + max 1 (nat (max_steps (cycle rt w env k s) - current_step (cycle rt w env k s)))" .
    ultimately show ?thesis
      using True below by (simp add: workflow_loop.simps [of rt w env k s])
  next
    case False
    then show ?thesis by (simp add: workflow_loop.simps [of rt w env k s])
  qed
qed

lemma answer_error_result:
  "\<exists>a. map_of (error_result sid t e) ''answer'' = Some (PStr a) \<and> a \<noteq> []"
  by (simp add: error_result_def system_error_prefix_def)

lemma run_from_answer:
  "\<exists>a. map_of (run_from rt sid t invoked) ''answer'' = Some (PStr a) \<and> a \<noteq> []"
proof (cases invoked)
  case (Raises e)
  then show ?thesis using answer_error_result by (simp add: run_from_def)
next
  case (Returns result)
  show ?thesis
  proof (cases "to_agent_state result")
    case (Inl f)
    with Returns show ?thesis using answer_error_result by (simp add: run_from_def)
  next
    case (Inr final_state)
    show ?thesis
    proof (cases "truthy_opt (final_answer final_state)")
      case True
      then obtain a where "final_answer final_state = Some a" "a \<noteq> []"
        by (cases "final_answer final_state") auto
      with Returns Inr show ?thesis by (simp add: run_from_def final_result_def)
    next
      case False
      with Returns Inr show ?thesis
        using answer_error_result by (cases "final_answer final_state") (simp_all add: run_from_def)
    qed
  qed
qed

text \<open>
  Claim C1. For every query and every behaviour of the collaborators, the graph that
  \<open>run\<close> invokes is a total function (\<open>workflow_loop\<close> with its termination proof), it
  makes at most \<open>max_steps = 10\<close> reasoning/action/reflection cycles, and the record \<open>run\<close>
  returns has a non-empty string as its \<open>answer\<close>. The conditional edge answers \<open>end\<close>
  whenever \<open>current_step\<close> has reached \<open>max_steps\<close>. The bound does not depend on the start
  state: from any state the graph makes at most \<open>max_steps - current_step\<close> cycles (and at
  least one). The answer does not depend on the graph: whatever the invocation returns
  or raises, \<open>run\<close> answers with a non-empty string.
\<close>

theorem run_terminates:
  "snd (workflow_loop rt w env 0 (initial_state query)) \<le> 10
   \<and> (\<exists>a. map_of (run rt w env query session_id workflow_time) ''answer'' = Some (PStr a) \<and> a \<noteq> [])
   \<and> (max_steps s \<le> current_step s \<longrightarrow> should_continue s = ''end'')
   \<and> snd (workflow_loop rt w env 0 s) \<le> max 1 (nat (max_steps s - current_step s))
   \<and> (\<forall>invoked. \<exists>a. map_of (run_from rt session_id workflow_time invoked) ''answer'' = Some (PStr a)
          \<and> a \<noteq> [])"
proof (intro conjI)
  have "snd (workflow_loop rt w env 0 (initial_state query))
      \<le> 0 + max 1 (nat (max_steps (initial_state query) - current_step (initial_state query)))"
    by (rule workflow_loop_cycles)
  then show "snd (workflow_loop rt w env 0 (initial_state query)) \<le> 10"
    by (simp add: initial_state_def)
next
  show "\<exists>a. map_of (run rt w env query session_id workflow_time) ''answer'' = Some (PStr a) \<and> a \<noteq> []"
    unfolding run_def by (rule run_from_answer)
next
  show "max_steps s \<le> current_step s \<longrightarrow> should_continue s = ''end''"
    by (simp add: should_continue_def)
next
  show "snd (workflow_loop rt w env 0 s) \<le> max 1 (nat (max_steps s - current_step s))"
    using workflow_loop_cycles [of rt w env 0 s] by simp
next
  show "\<forall>invoked. \<exists>a. map_of (run_from rt session_id workflow_time invoked) ''answer'' = Some (PStr a)
          \<and> a \<noteq> []"
    using run_from_answer by blast
qed

text \<open>
  The theorem at the run that calls the price tool once and answers in its second cycle,
  and at a state whose counter has reached the limit.
\<close>

theorem run_terminates_witness:
  "snd (workflow_loop py service price_run 0 (initial_state ''Gia FPT?'')) = 2
   \<and> snd (workflow_loop py service price_run 0 (initial_state ''Gia FPT?'')) \<le> 10
   \<and> map_of (run py service price_run ''Gia FPT?'' None (Finite 3)) ''answer'' = Some (PStr ''FPT 115000 VND'')
   \<and> max_steps ((initial_state ''Gia FPT?'')\<lparr>current_step := 10\<rparr>)
        \<le> current_step ((initial_state ''Gia FPT?'')\<lparr>current_step := 10\<rparr>)
   \<and> should_continue ((initial_state ''Gia FPT?'')\<lparr>current_step := 10\<rparr>) = ''end''"
proof -
  have a: "snd (workflow_loop py service price_run 0 (initial_state ''Gia FPT?'')) = 2" by code_simp
  have b: "snd (workflow_loop py service price_run 0 (initial_state ''Gia FPT?'')) \<le> 10"
    using run_terminates by (rule conjunct1)
  have c: "map_of (run py service price_run ''Gia FPT?'' None (Finite 3)) ''answer'' = Some (PStr ''FPT 115000 VND'')"
    by code_simp
  have d: "max_steps ((initial_state ''Gia FPT?'')\<lparr>current_step := 10\<rparr>)
        \<le> current_step ((initial_state ''Gia FPT?'')\<lparr>current_step := 10\<rparr>)"
    by (simp add: initial_state_def)
  have e: "should_continue ((initial_state ''Gia FPT?'')\<lparr>current_step := 10\<rparr>) = ''end''"
    using run_terminates [THEN conjunct2, THEN conjunct2, THEN conjunct1, THEN mp, OF d] .
  from a b c d e show ?thesis by (intro conjI)
qed

end
